theory Spec2Isabelle
  imports Main "HOL-Library.Code_Target_Nat"
begin

section \<open>Python values and dictionaries\<close>

text \<open>
  The agent keeps its working memory in untyped dictionaries (\<^verbatim>\<open>Dict[str, Any]\<close>).
  The values that the code stores there are \<^verbatim>\<open>None\<close>, booleans, integers,
  strings and lists of strings.  A dictionary is an association list in insertion
  order, as Python's \<^verbatim>\<open>dict\<close> is.
\<close>

datatype pyval = PNone | PBool bool | PInt int | PStr string | PList "string list"

type_synonym pydict = "(string \<times> pyval) list"

text \<open>\<^verbatim>\<open>d.get(k)\<close>: the stored value, or \<^verbatim>\<open>None\<close> for a missing key.\<close>

definition dict_get :: "pydict \<Rightarrow> string \<Rightarrow> pyval" where
  "dict_get d k = (case map_of d k of None \<Rightarrow> PNone | Some v \<Rightarrow> v)"

text \<open>\<^verbatim>\<open>d[k]\<close>: the stored value; a missing key raises \<^verbatim>\<open>KeyError\<close> (here \<open>None\<close>).\<close>

definition dict_item :: "pydict \<Rightarrow> string \<Rightarrow> pyval option" where
  "dict_item d k = map_of d k"

text \<open>\<^verbatim>\<open>d[k] = v\<close>: an existing key keeps its place, a new key goes last.\<close>

fun dict_set :: "string \<Rightarrow> pyval \<Rightarrow> pydict \<Rightarrow> pydict" where
  "dict_set k v [] = [(k, v)]"
| "dict_set k v ((k', v') # d) =
     (if k' = k then (k, v) # d else (k', v') # dict_set k v d)"

text \<open>\<^verbatim>\<open>d.update(e)\<close>: every item of \<open>e\<close> is stored in \<open>d\<close>, in the order of \<open>e\<close>.\<close>

fun dict_update :: "pydict \<Rightarrow> pydict \<Rightarrow> pydict" where
  "dict_update d [] = d"
| "dict_update d ((k, v) # e) = dict_update (dict_set k v d) e"

text \<open>Python's truth value of an object, as \<^verbatim>\<open>if x:\<close> reads it.\<close>

fun truthy :: "pyval \<Rightarrow> bool" where
  "truthy PNone = False"
| "truthy (PBool b) = b"
| "truthy (PInt n) = (n \<noteq> 0)"
| "truthy (PStr s) = (s \<noteq> [])"
| "truthy (PList xs) = (xs \<noteq> [])"

text \<open>\<^verbatim>\<open>a and b\<close> and \<^verbatim>\<open>a or b\<close> return one of their operands.\<close>

definition py_and :: "pyval \<Rightarrow> pyval \<Rightarrow> pyval" where
  "py_and a b = (if truthy a then b else a)"

definition py_or :: "pyval \<Rightarrow> pyval \<Rightarrow> pyval" where
  "py_or a b = (if truthy a then a else b)"

section \<open>Exceptions\<close>

text \<open>The exceptions that the code modelled here raises or lets through.\<close>

datatype error =
    ValueError_int  \<comment> \<open>\<^verbatim>\<open>ValueError\<close> of \<^verbatim>\<open>int(...)\<close>\<close>
  | ValueError_not_found  \<comment> \<open>\<^verbatim>\<open>ValueError\<close> raised for an unknown conversation\<close>
  | ValueError_format  \<comment> \<open>\<^verbatim>\<open>ValueError\<close> of a format code applied to a string\<close>
  | OverflowError  \<comment> \<open>an integer beyond the range of a float\<close>
  | TypeError  \<comment> \<open>a value of a type that the operation does not take\<close>

section \<open>Scoring and classification\<close>

subsection \<open>The agent (\<^verbatim>\<open>app/ai/agent.py\<close>)\<close>

text \<open>\<^verbatim>\<open>QualificationAgent._calculate_score\<close>.\<close>

definition calculate_score :: "pydict \<Rightarrow> pydict \<Rightarrow> int" where
  "calculate_score criteria contact_info =
    (let score = 0;
         score = (if truthy (py_or (dict_get criteria ''budget_min'')
                                    (dict_get criteria ''budget_max''))
                  then score + 25 else score);
         score = (if truthy (dict_get criteria ''preferred_cities'') then score + 20 else score);
         score = (if truthy (dict_get criteria ''preferred_types'') then score + 15 else score);
         score = (if truthy (dict_get criteria ''transaction_type'') then score + 10 else score);
         score = (if truthy (dict_get criteria ''rooms'') then score + 5 else score);
         score = (if truthy (dict_get criteria ''area'') then score + 5 else score);
         score = (if truthy (dict_get contact_info ''name'') then score + 5 else score);
         score = (if truthy (dict_get contact_info ''phone'') then score + 10 else score);
         score = (if truthy (dict_get contact_info ''email'') then score + 5 else score)
     in min score 100)"

text \<open>\<^verbatim>\<open>QualificationAgent._determine_lead_quality\<close>.\<close>

definition determine_lead_quality :: "int \<Rightarrow> string" where
  "determine_lead_quality score =
    (if score \<ge> 70 then ''hot''
     else if score \<ge> 40 then ''warm''
     else ''cold'')"

subsection \<open>The workflow tools (\<^verbatim>\<open>app/ai/tools.py\<close>)\<close>

text \<open>
  Floats are IEEE 754 doubles: 53 significant bits, and every value below
  \<open>2 ^ 1024\<close> in absolute value.  \<open>bit_length n\<close> is the number of bits of \<open>n\<close>
  (\<^verbatim>\<open>int.bit_length\<close>).
\<close>

function bit_length :: "int \<Rightarrow> nat" where
  "bit_length n = (if n \<le> 0 then 0 else Suc (bit_length (n div 2)))"
  by pat_completeness auto

termination
  by (relation "measure nat") auto

declare bit_length.simps [simp del]

text \<open>
  \<^verbatim>\<open>int(engagement_level / 2)\<close>.  The division of two integers gives the float
  nearest to the exact quotient, ties going to the even significand, and raises
  \<^verbatim>\<open>OverflowError\<close> when that float would be \<open>2 ^ 1024\<close> or more; \<^verbatim>\<open>int\<close> then
  truncates towards zero.  Below \<open>2 ^ 53\<close> in absolute value the half is exact.  Above,
  the \<open>shift\<close> lowest bits of the integer do not fit: \<open>q\<close> holds the 53 highest bits,
  \<open>r\<close> the rest, which decides the rounding, and the float is the integer
  \<open>m * 2 ^ (shift - 1)\<close>.
\<close>

definition int_half :: "int \<Rightarrow> error + int" where
  "int_half e =
    (let n = \<bar>e\<bar>
     in if n < 2 ^ 53 then Inr (sgn e * (n div 2))
        else
          (let shift = bit_length n - 53;
               q = n div 2 ^ shift;
               r = n mod 2 ^ shift;
               m = (if 2 ^ (shift - 1) < r \<or> (r = 2 ^ (shift - 1) \<and> odd q)
                    then q + 1 else q);
               v = m * 2 ^ (shift - 1)
           in if 2 ^ 1024 \<le> v then Inl OverflowError else Inr (sgn e * v)))"

text \<open>\<^verbatim>\<open>calculate_qualification_score\<close>.  Only the division of the last step can raise.\<close>

definition calculate_qualification_score ::
  "bool \<Rightarrow> bool \<Rightarrow> bool \<Rightarrow> bool \<Rightarrow> bool \<Rightarrow> int \<Rightarrow> int \<Rightarrow> error + int" where
  "calculate_qualification_score budget_defined location_defined property_type_defined
      timeframe_defined contact_info_complete specific_criteria_count engagement_level =
    (let score = 0;
         score = (if budget_defined then score + 25 else score);
         score = (if location_defined then score + 20 else score);
         score = (if property_type_defined then score + 15 else score);
         score = (if timeframe_defined then score + 10 else score);
         score = (if contact_info_complete then score + 15 else score);
         criteria_points = min (specific_criteria_count * 5) 10;
         score = score + criteria_points
     in case int_half engagement_level of
          Inl e \<Rightarrow> Inl e
        | Inr half \<Rightarrow>
           (let engagement_points = min half 5;
                score = score + engagement_points
            in Inr score))"

text \<open>\<^verbatim>\<open>classify_lead_quality\<close>.\<close>

definition classify_lead_quality :: "int \<Rightarrow> string" where
  "classify_lead_quality score =
    (if score \<ge> 70 then ''hot''
     else if score \<ge> 50 then ''warm''
     else ''cold'')"


section \<open>Strings\<close>

text \<open>
  A Python \<^verbatim>\<open>str\<close> is a sequence of code points.  The model reads a \<^typ>\<open>char\<close>
  as the code point of the same number (0 to 255, the Latin-1 range), which holds
  every letter of the keywords and patterns of the source (a with grave accent is
  \<open>0xE0\<close>, c with cedilla \<open>0xE7\<close>, e with grave accent \<open>0xE8\<close>, e with acute accent
  \<open>0xE9\<close>, superscript two \<open>0xB2\<close>).  Text with a
  code point above 255 is outside the model.
\<close>

definition code :: "char \<Rightarrow> nat" where
  "code c = of_char c"

text \<open>\<^verbatim>\<open>str.lower\<close> on one code point of the range.\<close>

definition lower_char :: "char \<Rightarrow> char" where
  "lower_char c =
    (let n = code c
     in if (65 \<le> n \<and> n \<le> 90) \<or> (192 \<le> n \<and> n \<le> 222 \<and> n \<noteq> 215)
        then char_of (n + 32) else c)"

definition py_lower :: "string \<Rightarrow> string" where
  "py_lower s = map lower_char s"

text \<open>The classes \<^verbatim>\<open>\d\<close>, \<^verbatim>\<open>\s\<close> and \<^verbatim>\<open>\w\<close> of \<^verbatim>\<open>re\<close> on a \<^verbatim>\<open>str\<close>.\<close>

definition is_digit :: "char \<Rightarrow> bool" where
  "is_digit c = (48 \<le> code c \<and> code c \<le> 57)"

definition is_space :: "char \<Rightarrow> bool" where
  "is_space c =
    (let n = code c
     in (9 \<le> n \<and> n \<le> 13) \<or> (28 \<le> n \<and> n \<le> 32) \<or> n = 133 \<or> n = 160)"

definition is_word :: "char \<Rightarrow> bool" where
  "is_word c =
    (let n = code c
     in (48 \<le> n \<and> n \<le> 57) \<or> (65 \<le> n \<and> n \<le> 90) \<or> n = 95 \<or> (97 \<le> n \<and> n \<le> 122)
        \<or> n = 170 \<or> n = 178 \<or> n = 179 \<or> n = 181 \<or> n = 185 \<or> n = 186
        \<or> (188 \<le> n \<and> n \<le> 190) \<or> (192 \<le> n \<and> n \<le> 214) \<or> (216 \<le> n \<and> n \<le> 246)
        \<or> (248 \<le> n \<and> n \<le> 255))"

text \<open>\<^verbatim>\<open>s.startswith(p)\<close> and \<^verbatim>\<open>sub in s\<close>.\<close>

fun starts_with :: "string \<Rightarrow> string \<Rightarrow> bool" where
  "starts_with [] s = True"
| "starts_with (c # p) [] = False"
| "starts_with (c # p) (x # s) = (c = x \<and> starts_with p s)"

fun py_in :: "string \<Rightarrow> string \<Rightarrow> bool" where
  "py_in sub [] = (sub = [])"
| "py_in sub (x # xs) = (starts_with sub (x # xs) \<or> py_in sub xs)"

text \<open>\<^verbatim>\<open>s.find(sub)\<close>: the first index where \<open>sub\<close> starts, or \<open>-1\<close>.\<close>

fun find_from :: "string \<Rightarrow> int \<Rightarrow> string \<Rightarrow> int" where
  "find_from sub i [] = (if sub = [] then i else - 1)"
| "find_from sub i (x # xs) =
     (if starts_with sub (x # xs) then i else find_from sub (i + 1) xs)"

definition py_find :: "string \<Rightarrow> string \<Rightarrow> int" where
  "py_find s sub = find_from sub 0 s"

text \<open>
  \<^verbatim>\<open>s.replace(old, new)\<close> for a non-empty \<open>old\<close>: the occurrences are replaced from
  the left and do not overlap.  \<open>skip\<close> counts the characters of an occurrence that
  are still to be passed over.
\<close>

fun replace_from :: "string \<Rightarrow> string \<Rightarrow> nat \<Rightarrow> string \<Rightarrow> string" where
  "replace_from old new skip [] = []"
| "replace_from old new skip (x # xs) =
     (if 0 < skip then replace_from old new (skip - 1) xs
      else if old \<noteq> [] \<and> starts_with old (x # xs)
           then new @ replace_from old new (length old - 1) xs
      else x # replace_from old new 0 xs)"

definition py_replace :: "string \<Rightarrow> string \<Rightarrow> string \<Rightarrow> string" where
  "py_replace s old new = replace_from old new 0 s"

text \<open>\<^verbatim>\<open>s[a:b]\<close>: a negative index counts from the end, and both are clipped.\<close>

definition py_slice :: "string \<Rightarrow> int \<Rightarrow> int \<Rightarrow> string" where
  "py_slice s a b =
    (let n = int (length s);
         a' = (if a < 0 then max 0 (a + n) else min a n);
         b' = (if b < 0 then max 0 (b + n) else min b n)
     in take (nat (b' - a')) (drop (nat a') s))"

text \<open>\<^verbatim>\<open>s.strip()\<close>.\<close>

definition py_strip :: "string \<Rightarrow> string" where
  "py_strip s = rev (dropWhile is_space (rev (dropWhile is_space s)))"

text \<open>\<^verbatim>\<open>sep.join(xs)\<close>.\<close>

fun py_join :: "string \<Rightarrow> string list \<Rightarrow> string" where
  "py_join sep [] = []"
| "py_join sep [x] = x"
| "py_join sep (x # y # xs) = x @ sep @ py_join sep (y # xs)"

text \<open>
  \<^verbatim>\<open>int(s)\<close> raises \<^verbatim>\<open>ValueError\<close> (here \<open>None\<close>) on a string that is not a
  number, and, since CPython 3.11 and the security releases of 3.7 to 3.10, on more
  than 4300 digits (\<^verbatim>\<open>sys.int_info.default_max_str_digits\<close>).  The code applies it
  to what its patterns capture: digits, with white space between them for the grouped
  budget pattern, always a digit first and last.  On such a string \<^verbatim>\<open>int\<close> succeeds
  exactly when all characters are digits and there are at most 4300 of them.
\<close>

definition digits_value :: "string \<Rightarrow> int" where
  "digits_value s = foldl (\<lambda>a c. 10 * a + (int (code c) - 48)) 0 s"

definition int_max_str_digits :: nat where
  "int_max_str_digits = 4300"

definition py_int :: "string \<Rightarrow> int option" where
  "py_int s =
    (if s \<noteq> [] \<and> list_all is_digit s \<and> length s \<le> int_max_str_digits
     then Some (digits_value s) else None)"

section \<open>Regular expressions\<close>

text \<open>
  The patterns of the source use literals, classes, sequence, alternation, greedy
  bounded repetition, one capturing group and the word boundary \<^verbatim>\<open>\b\<close>.  \<^verbatim>\<open>re\<close>
  matches by backtracking: of all the ways a pattern matches at a position it takes
  the first in the order greedy-before-shorter, left-alternative-before-right.
\<close>

datatype citem = Digit | Space | Word | Single char | Range nat nat

datatype re =
    Eps
  | Chr char
  | Cls "citem list"
  | Bnd
  | Seq re re
  | Alt re re
  | Rep nat "nat option" re
  | Grp re

text \<open>A literal string, \<open>r*\<close>, \<open>r+\<close> and \<open>r?\<close>.\<close>

fun lit :: "string \<Rightarrow> re" where
  "lit [] = Eps"
| "lit [c] = Chr c"
| "lit (c # cs) = Seq (Chr c) (lit cs)"

abbreviation star :: "re \<Rightarrow> re" where
  "star r \<equiv> Rep 0 None r"

abbreviation plus :: "re \<Rightarrow> re" where
  "plus r \<equiv> Rep 1 None r"

abbreviation opt :: "re \<Rightarrow> re" where
  "opt r \<equiv> Rep 0 (Some 1) r"

text \<open>
  Membership in a class.  Under \<^verbatim>\<open>re.IGNORECASE\<close> (the flag \<open>ic\<close>) the compiler
  stores the lower-case forms of the members of a set and the matcher looks the
  lower-case form of the text character up.  \<^verbatim>\<open>\d\<close>, \<^verbatim>\<open>\s\<close> and \<^verbatim>\<open>\w\<close> ignore
  the flag.  A range may end above 255 (the source has one that ends at \<open>0x178\<close>); the
  only code points above 255 and up to \<open>0x178\<close> with a lower-case form in the Latin-1
  range are \<open>0x130\<close> and \<open>0x178\<close>, whose forms (\<open>i\<close> and \<open>0xFF\<close>) the part of that
  range below 256 gives as well, so the members above 255 are left out.
\<close>

fun in_item :: "bool \<Rightarrow> citem \<Rightarrow> char \<Rightarrow> bool" where
  "in_item ic Digit c = is_digit c"
| "in_item ic Space c = is_space c"
| "in_item ic Word c = is_word c"
| "in_item ic (Single d) c = (if ic then lower_char c = lower_char d else c = d)"
| "in_item ic (Range lo hi) c =
     (if ic then list_ex (\<lambda>n. lower_char (char_of n) = lower_char c) [lo ..< Suc (min hi 255)]
      else lo \<le> code c \<and> code c \<le> hi)"

definition in_class :: "bool \<Rightarrow> citem list \<Rightarrow> char \<Rightarrow> bool" where
  "in_class ic items c = list_ex (\<lambda>i. in_item ic i c) items"

text \<open>
  A matcher state: the character before the position (for \<^verbatim>\<open>\b\<close>), the text from
  the position on, and the text of the capturing group once it has matched.
\<close>

type_synonym mstate = "char option \<times> string \<times> string option"

definition word_before :: "char option \<Rightarrow> bool" where
  "word_before p = (case p of None \<Rightarrow> False | Some c \<Rightarrow> is_word c)"

definition word_after :: "string \<Rightarrow> bool" where
  "word_after r = (case r of [] \<Rightarrow> False | c # _ \<Rightarrow> is_word c)"

text \<open>One character that satisfies \<open>ok\<close>.\<close>

definition step_char :: "(char \<Rightarrow> bool) \<Rightarrow> mstate \<Rightarrow> mstate list" where
  "step_char ok s =
    (case s of (p, r, g) \<Rightarrow>
      (case r of [] \<Rightarrow> [] | x # xs \<Rightarrow> if ok x then [(Some x, xs, g)] else []))"

text \<open>
  Greedy repetition of a matcher \<open>f\<close>, between \<open>m\<close> and \<open>n\<close> times: one more round
  first, stopping here last.  Every round of the patterns of the source consumes a
  character, so that \<open>fuel\<close>, one more than the length of the text left, is never
  used up.
\<close>

primrec rep_iter ::
  "(mstate \<Rightarrow> mstate list) \<Rightarrow> nat \<Rightarrow> nat \<Rightarrow> nat option \<Rightarrow> mstate \<Rightarrow> mstate list" where
  "rep_iter f 0 m n s = (if m = 0 then [s] else [])"
| "rep_iter f (Suc fuel) m n s =
     (if n = Some 0 then [s]
      else concat (map (rep_iter f fuel (m - 1) (map_option (\<lambda>k. k - 1) n)) (f s))
           @ (if m = 0 then [s] else []))"

text \<open>All the ways \<open>r\<close> matches at a state, in the order the backtracking tries them.\<close>

primrec matches :: "bool \<Rightarrow> re \<Rightarrow> mstate \<Rightarrow> mstate list" where
  "matches ic Eps = (\<lambda>s. [s])"
| "matches ic (Chr c) = step_char (\<lambda>x. if ic then lower_char x = lower_char c else x = c)"
| "matches ic (Cls items) = step_char (in_class ic items)"
| "matches ic Bnd =
     (\<lambda>s. case s of (p, r, g) \<Rightarrow> if word_before p \<noteq> word_after r then [s] else [])"
| "matches ic (Seq a b) = (\<lambda>s. concat (map (matches ic b) (matches ic a s)))"
| "matches ic (Alt a b) = (\<lambda>s. matches ic a s @ matches ic b s)"
| "matches ic (Rep m n a) =
     (\<lambda>s. rep_iter (matches ic a) (Suc (length (fst (snd s)))) m n s)"
| "matches ic (Grp a) =
     (\<lambda>s. case s of (p, r, g) \<Rightarrow>
        map (\<lambda>s'. case s' of (p', r', g') \<Rightarrow> (p', r', Some (take (length r - length r') r)))
            (matches ic a s))"

text \<open>
  \<^verbatim>\<open>re.findall\<close>: the matches from left to right, without overlap; each gives the
  text of the group when the pattern has one (in the patterns of the source the group
  takes part in every match), and the whole matched text otherwise.  \<open>skip\<close> counts
  the characters of the last match that are still to be passed over.
\<close>

definition match_text :: "string \<Rightarrow> mstate \<Rightarrow> string" where
  "match_text r s' =
    (case s' of (p', r', g') \<Rightarrow>
      (case g' of Some t \<Rightarrow> t | None \<Rightarrow> take (length r - length r') r))"

fun findall_from :: "bool \<Rightarrow> re \<Rightarrow> nat \<Rightarrow> char option \<Rightarrow> string \<Rightarrow> string list" where
  "findall_from ic r skip p [] =
     (if 0 < skip then []
      else (case matches ic r (p, [], None) of [] \<Rightarrow> [] | s' # _ \<Rightarrow> [match_text [] s']))"
| "findall_from ic r skip p (x # xs) =
     (if 0 < skip then findall_from ic r (skip - 1) (Some x) xs
      else (case matches ic r (p, x # xs, None) of
              [] \<Rightarrow> findall_from ic r 0 (Some x) xs
            | s' # _ \<Rightarrow> match_text (x # xs) s'
                # findall_from ic r (length (x # xs) - length (fst (snd s')) - 1) (Some x) xs))"

definition findall :: "bool \<Rightarrow> re \<Rightarrow> string \<Rightarrow> string list" where
  "findall ic r s = findall_from ic r 0 None s"

text \<open>\<^verbatim>\<open>re.search\<close>, read as a truth value.\<close>

definition search :: "bool \<Rightarrow> re \<Rightarrow> string \<Rightarrow> bool" where
  "search ic r s = (findall ic r s \<noteq> [])"

section \<open>Extraction (\<^verbatim>\<open>app/ai/agent.py\<close>)\<close>

definition cities_map :: "(string \<times> string list) list" where
  "cities_map =
    [(''Casablanca'', [''casablanca'', ''casa'']),
     (''Rabat'', [''rabat'']),
     (''Marrakech'', [''marrakech'', ''marrakesh'']),
     (''F'' @ [CHR 0xE8] @ ''s'', [''f'' @ [CHR 0xE8] @ ''s'', ''fes'']),
     (''Tanger'', [''tanger'', ''tangier'']),
     (''Agadir'', [''agadir'']),
     (''Mekn'' @ [CHR 0xE8] @ ''s'', [''mekn'' @ [CHR 0xE8] @ ''s'', ''meknes'']),
     (''Oujda'', [''oujda'']),
     (''T'' @ [CHR 0xE9] @ ''touan'', [''t'' @ [CHR 0xE9] @ ''touan'', ''tetouan'']),
     (''K'' @ [CHR 0xE9] @ ''nitra'', [''k'' @ [CHR 0xE9] @ ''nitra'', ''kenitra''])]"

definition types_map :: "(string \<times> string list) list" where
  "types_map =
    [(''appartement'', [''appartement'', ''appart'']),
     (''villa'', [''villa'']),
     (''maison'', [''maison'']),
     (''riad'', [''riad'']),
     (''terrain'', [''terrain'']),
     (''bureau'', [''bureau'']),
     (''local_commercial'', [''local commercial'', ''local'', ''commerce''])]"

text \<open>\<^verbatim>\<open>any(kw in text for kw in keywords)\<close>.\<close>

definition any_in :: "string list \<Rightarrow> string \<Rightarrow> bool" where
  "any_in keywords text = list_ex (\<lambda>kw. py_in kw text) keywords"

text \<open>The loop that collects the keys of a keyword table whose keywords occur.\<close>

fun detect :: "(string \<times> string list) list \<Rightarrow> string \<Rightarrow> string list" where
  "detect [] text_lower = []"
| "detect ((name, keywords) # m) text_lower =
     (if any_in keywords text_lower then name # detect m text_lower
      else detect m text_lower)"

text \<open>
  \<^verbatim>\<open>(\d+)\s*(?:millions?|m\b)\<close>, \<^verbatim>\<open>(\d{1,3}(?:\s?\d{3}){2,})\<close> and
  \<^verbatim>\<open>(\d{7,})\<close>.
\<close>

definition budget_patterns :: "re list" where
  "budget_patterns =
    [Seq (Grp (plus (Cls [Digit])))
       (Seq (star (Cls [Space]))
          (Alt (Seq (lit ''million'') (opt (Chr CHR ''s''))) (Seq (Chr CHR ''m'') Bnd))),
     Grp (Seq (Rep 1 (Some 3) (Cls [Digit]))
            (Rep 2 None (Seq (opt (Cls [Space])) (Rep 3 (Some 3) (Cls [Digit]))))),
     Grp (Rep 7 None (Cls [Digit]))]"

text \<open>\<^verbatim>\<open>\d+\s*m\b\<close>.\<close>

definition re_digits_m :: re where
  "re_digits_m = Seq (plus (Cls [Digit])) (Seq (star (Cls [Space])) (Seq (Chr CHR ''m'') Bnd))"

text \<open>
  \<^verbatim>\<open>(\d+)\s*chambres?\<close>, and \<^verbatim>\<open>(\d+)\s*m[.2]\<close> where the dot stands for the
  superscript two (\<open>0xB2\<close>) of the source.
\<close>

definition re_rooms :: re where
  "re_rooms =
    Seq (Grp (plus (Cls [Digit])))
      (Seq (star (Cls [Space])) (Seq (lit ''chambre'') (opt (Chr CHR ''s''))))"

definition re_area :: re where
  "re_area =
    Seq (Grp (plus (Cls [Digit])))
      (Seq (star (Cls [Space]))
         (Seq (Chr CHR ''m'') (Cls [Single (CHR 0xB2), Single CHR ''2''])))"

text \<open>
  The budget loop.  The body of the \<^verbatim>\<open>try\<close> can only raise in \<^verbatim>\<open>int\<close>, before
  anything is stored; the bare \<^verbatim>\<open>except: pass\<close> then goes on to the next pattern.
  Once a pattern has given an amount, the loop stores it under one key and breaks.
  The words looked for around the amount are \<^verbatim>\<open>max\<close>, \<^verbatim>\<open>jusqu'a\<close> (with a grave
  accent on the last letter) and \<^verbatim>\<open>pas plus\<close>, then \<^verbatim>\<open>min\<close>, \<^verbatim>\<open>au moins\<close> and
  \<^verbatim>\<open>partir\<close>.
\<close>

fun budget_loop :: "re list \<Rightarrow> string \<Rightarrow> pydict \<Rightarrow> pydict" where
  "budget_loop [] text_lower criteria = criteria"
| "budget_loop (pattern # rest) text_lower criteria =
     (case findall True pattern text_lower of
        [] \<Rightarrow> budget_loop rest text_lower criteria
      | m0 # _ \<Rightarrow>
         (let amount_str = py_replace (py_replace (py_replace m0 '' '' []) ''millions'' []) ''m'' []
          in case py_int amount_str of
               None \<Rightarrow> budget_loop rest text_lower criteria
             | Some amount0 \<Rightarrow>
                (let amount =
                       (if py_in ''million'' text_lower \<or> search False re_digits_m text_lower
                        then amount0 * 1000000 else amount0);
                     context =
                       py_slice text_lower (max 0 (py_find text_lower m0 - 50))
                                           (py_find text_lower m0 + 50)
                 in if any_in [''max'', ''jusqu'' @ [CHR 0x27, CHR 0xE0], ''pas plus''] context
                    then dict_set ''budget_max'' (PInt amount) criteria
                    else if any_in [''min'', ''au moins'', ''partir''] context
                    then dict_set ''budget_min'' (PInt amount) criteria
                    else dict_set ''budget_max'' (PInt amount) criteria)))"

text \<open>
  \<^verbatim>\<open>QualificationAgent._extract_criteria\<close>.  The two conversions after the budget
  loop are outside any \<^verbatim>\<open>try\<close>.  The fourth purchase keyword is \<^verbatim>\<open>achete\<close> with a
  grave accent on its first e.
\<close>

definition extract_criteria :: "string \<Rightarrow> error + pydict" where
  "extract_criteria conversation_text =
    (let criteria = [];
         text_lower = py_lower conversation_text;
         detected_cities = detect cities_map text_lower;
         criteria = (if detected_cities \<noteq> []
                     then dict_set ''preferred_cities'' (PList detected_cities) criteria
                     else criteria);
         detected_types = detect types_map text_lower;
         criteria = (if detected_types \<noteq> []
                     then dict_set ''preferred_types'' (PList detected_types) criteria
                     else criteria);
         criteria =
           (if any_in [''vente'', ''acheter'', ''achat'', ''ach'' @ [CHR 0xE8] @ ''te''] text_lower
            then dict_set ''transaction_type'' (PStr ''vente'') criteria
            else if any_in [''location'', ''louer'', ''loue''] text_lower
            then dict_set ''transaction_type'' (PStr ''location'') criteria
            else criteria);
         criteria = budget_loop budget_patterns text_lower criteria
     in case (case findall False re_rooms text_lower of
                [] \<Rightarrow> Inr criteria
              | m0 # _ \<Rightarrow>
                 (case py_int m0 of
                    None \<Rightarrow> Inl ValueError_int
                  | Some n \<Rightarrow> Inr (dict_set ''rooms'' (PInt n) criteria))) of
          Inl e \<Rightarrow> Inl e
        | Inr criteria \<Rightarrow>
           (case findall False re_area text_lower of
              [] \<Rightarrow> Inr criteria
            | m0 # _ \<Rightarrow>
               (case py_int m0 of
                  None \<Rightarrow> Inl ValueError_int
                | Some n \<Rightarrow> Inr (dict_set ''area'' (PInt n) criteria))))"

text \<open>
  \<^verbatim>\<open>(\+212|0)[5-7]\d{8}\<close> and \<^verbatim>\<open>(\d{10})\<close>;
  \<^verbatim>\<open>\b[\w\.-]+@[\w\.-]+\.\w+\b\<close>; and, under \<^verbatim>\<open>re.IGNORECASE\<close>, the pattern of the
  name: one of \<^verbatim>\<open>je m'appelle\<close>, \<^verbatim>\<open>mon nom est\<close>, \<^verbatim>\<open>je suis\<close>, white space, and
  in the group one or two words, each a character of \<open>A-Z\<close> or \<open>0xC0-0x178\<close> and then
  one or more of \<open>a-z\<close> or \<open>0xE0-0xFF\<close>.
\<close>

definition phone_patterns :: "re list" where
  "phone_patterns =
    [Seq (Grp (Alt (lit ''+212'') (Chr CHR ''0'')))
       (Seq (Cls [Range 53 55]) (Rep 8 (Some 8) (Cls [Digit]))),
     Grp (Rep 10 (Some 10) (Cls [Digit]))]"

definition re_email :: re where
  "re_email =
    Seq Bnd
      (Seq (plus (Cls [Word, Single CHR ''.'', Single CHR ''-'']))
         (Seq (Chr CHR ''@'')
            (Seq (plus (Cls [Word, Single CHR ''.'', Single CHR ''-'']))
               (Seq (Chr CHR ''.'') (Seq (plus (Cls [Word])) Bnd)))))"

definition re_name_word :: re where
  "re_name_word =
    Seq (Cls [Range 65 90, Range 192 376]) (plus (Cls [Range 97 122, Range 224 255]))"

definition name_patterns :: "re list" where
  "name_patterns =
    [Seq (Alt (lit (''je m'' @ [CHR 0x27] @ ''appelle''))
            (Alt (lit ''mon nom est'') (lit ''je suis'')))
       (Seq (plus (Cls [Space]))
          (Grp (Seq re_name_word (opt (Seq (plus (Cls [Space])) re_name_word)))))]"

text \<open>
  \<^verbatim>\<open>for pattern in patterns: matches = re.findall(...); if matches: ... break\<close>:
  the first match of the first pattern that matches.
\<close>

fun first_match :: "bool \<Rightarrow> re list \<Rightarrow> string \<Rightarrow> string option" where
  "first_match ic [] text = None"
| "first_match ic (pattern # rest) text =
     (case findall ic pattern text of
        [] \<Rightarrow> first_match ic rest text
      | m0 # _ \<Rightarrow> Some m0)"

text \<open>\<^verbatim>\<open>QualificationAgent._extract_contact_info\<close>.  Nothing in it can raise.\<close>

definition extract_contact_info :: "string \<Rightarrow> pydict" where
  "extract_contact_info conversation_text =
    (let contact = [(''name'', PNone), (''phone'', PNone), (''email'', PNone)];
         contact = (case first_match False phone_patterns conversation_text of
                      None \<Rightarrow> contact
                    | Some m0 \<Rightarrow> dict_set ''phone'' (PStr m0) contact);
         contact = (case findall False re_email conversation_text of
                      [] \<Rightarrow> contact
                    | m0 # _ \<Rightarrow> dict_set ''email'' (PStr m0) contact);
         contact = (case first_match True name_patterns conversation_text of
                      None \<Rightarrow> contact
                    | Some m0 \<Rightarrow> dict_set ''name'' (PStr (py_strip m0)) contact)
     in contact)"

section \<open>The conversation agent (\<^verbatim>\<open>app/ai/agent.py\<close>)\<close>

subsection \<open>State\<close>

text \<open>A message of the history.\<close>

record message =
  role :: string
  content :: string
  timestamp :: string

text \<open>
  The conversation state is a dictionary with the fixed keys that
  \<^verbatim>\<open>start_conversation\<close> gives it; \<^verbatim>\<open>end_conversation\<close> adds \<^verbatim>\<open>ended_at\<close> and
  \<^verbatim>\<open>end_reason\<close>, which read \<^verbatim>\<open>None\<close> (\<open>PNone\<close>) until then.  \<^verbatim>\<open>criteria\<close> and
  \<^verbatim>\<open>contact_info\<close> are dictionaries of their own.
\<close>

record conversation_state =
  conversation_id :: string
  messages :: "message list"
  criteria :: pydict
  contact_info :: pydict
  qualification_score :: int
  lead_quality :: string
  status :: string
  lead_id :: pyval
  created_at :: string
  user_id :: pyval
  ended_at :: pyval
  end_reason :: pyval

text \<open>What the insertion of a lead comes to.\<close>

datatype insert_result =
    Insert_raises  \<comment> \<open>the request raises: nothing is stored\<close>
  | Inserted_no_id  \<comment> \<open>the row is stored, and reading its identifier in the answer raises\<close>
  | Inserted pyval  \<comment> \<open>the row is stored, and this is its identifier\<close>

text \<open>
  What the collaborators outside the agent answer during one call: the clock, the
  language model (\<^verbatim>\<open>_generate_ai_response\<close>, which formats the properties found
  before it enters any \<^verbatim>\<open>try\<close> and so may raise), the property search, the insertion
  of a lead, whether the reading of a conversation and the first, second, ... writing
  of one succeed, and the text that Python gives for a value (\<^verbatim>\<open>str\<close>) and for an
  amount (\<^verbatim>\<open>format(float(n), ',.0f')\<close>).
\<close>

record ext =
  ts_user :: string
  ts_assistant :: string
  ts_end :: string
  ai_response :: "conversation_state \<Rightarrow> pydict list \<Rightarrow> error + string"
  match_properties :: "pydict \<Rightarrow> pydict list"
  insert_lead :: "pydict \<Rightarrow> insert_result"
  db_read_ok :: bool
  db_write_ok :: "nat \<Rightarrow> bool"
  fmt_value :: "pyval \<Rightarrow> string"
  fmt_amount :: "int \<Rightarrow> string"

text \<open>
  The agent's cache and the two tables it writes.  A row of \<^verbatim>\<open>conversations\<close> is
  the state snapshot stored under its identifier.
\<close>

record world =
  conversations_cache :: "string \<rightharpoonup> conversation_state"
  db_conversations :: "string \<rightharpoonup> conversation_state"
  db_leads :: "pydict list"

subsection \<open>One turn\<close>

text \<open>The dictionary that \<^verbatim>\<open>_process_message\<close> returns.\<close>

record turn_result =
  res_response :: string
  res_qualification_score :: int
  res_lead_quality :: string
  res_should_create_lead :: pyval
  res_conversation_complete :: bool
  res_properties_shown :: bool
  res_matched_properties_count :: nat
  res_criteria_extracted :: "(string \<times> bool) list"

text \<open>
  \<^verbatim>\<open>QualificationAgent._process_message\<close>.  The state is mutated in place, so the
  state at the moment an exception leaves the function (\<^verbatim>\<open>int\<close> in the extraction,
  or the building of the prompt) is returned with the error.  \<open>search_run\<close> records
  whether \<^verbatim>\<open>_match_properties\<close> was called.  The contact record is subscripted
  after it has been updated with the extracted contact, which holds the three keys:
  the subscripts read what \<^verbatim>\<open>get\<close> reads.
\<close>

definition transcript :: "message list \<Rightarrow> string" where
  "transcript msgs = py_join [CHR 0x0A] (map (\<lambda>msg. role msg @ '': '' @ content msg) msgs)"

definition process_message ::
  "ext \<Rightarrow> conversation_state \<Rightarrow> string \<Rightarrow> conversation_state \<times> (error + turn_result \<times> bool)" where
  "process_message x conversation_state0 user_message =
    (let st = conversation_state0
           \<lparr>messages := messages conversation_state0
              @ [\<lparr>role = ''user'', content = user_message, timestamp = ts_user x\<rparr>]\<rparr>;
         conversation_text = transcript (messages st)
     in case extract_criteria conversation_text of
          Inl e \<Rightarrow> (st, Inl e)
        | Inr new_criteria \<Rightarrow>
           (let st = st\<lparr>criteria := dict_update (criteria st) new_criteria\<rparr>;
                contact = extract_contact_info conversation_text;
                st = st\<lparr>contact_info := dict_update (contact_info st) contact\<rparr>;
                score = calculate_score (criteria st) (contact_info st);
                st = st\<lparr>qualification_score := score\<rparr>;
                quality = determine_lead_quality score;
                st = st\<lparr>lead_quality := quality\<rparr>;
                search_run = (criteria st \<noteq> []);
                matched_properties = (if search_run then match_properties x (criteria st) else [])
            in case ai_response x st matched_properties of
                 Inl e \<Rightarrow> (st, Inl e)
               | Inr response_text \<Rightarrow>
                  (let st = st\<lparr>messages := messages st
                             @ [\<lparr>role = ''assistant'', content = response_text,
                                  timestamp = ts_assistant x\<rparr>]\<rparr>;
                       should_create_lead =
                         py_and (py_and (PBool (score \<ge> 50)) (dict_get (contact_info st) ''name''))
                                (dict_get (contact_info st) ''phone'');
                       conversation_complete = (score \<ge> 70 \<or> length (messages st) > 20);
                       criteria_extracted =
                         [(''budget'', truthy (py_or (dict_get (criteria st) ''budget_min'')
                                                     (dict_get (criteria st) ''budget_max''))),
                          (''location'', truthy (dict_get (criteria st) ''preferred_cities'')),
                          (''property_type'', truthy (dict_get (criteria st) ''preferred_types'')),
                          (''contact'', truthy (dict_get (contact_info st) ''phone''))]
                   in (st, Inr (\<lparr>res_response = response_text,
                                 res_qualification_score = score,
                                 res_lead_quality = quality,
                                 res_should_create_lead = should_create_lead,
                                 res_conversation_complete = conversation_complete,
                                 res_properties_shown = (length matched_properties > 0),
                                 res_matched_properties_count = length matched_properties,
                                 res_criteria_extracted = criteria_extracted\<rparr>, search_run)))))"

subsection \<open>Persistence\<close>

text \<open>
  \<^verbatim>\<open>_get_conversation\<close>: the cache first, then the table; a row that is found is put
  in the cache.  An exception of the store is caught and gives \<^verbatim>\<open>None\<close>.
\<close>

definition get_conversation ::
  "ext \<Rightarrow> world \<Rightarrow> string \<Rightarrow> world \<times> conversation_state option" where
  "get_conversation x w cid =
    (case conversations_cache w cid of
       Some st \<Rightarrow> (w, Some st)
     | None \<Rightarrow>
        (if db_read_ok x then
           (case db_conversations w cid of
              Some st \<Rightarrow> (w\<lparr>conversations_cache := (conversations_cache w)(cid \<mapsto> st)\<rparr>, Some st)
            | None \<Rightarrow> (w, None))
         else (w, None)))"

text \<open>
  \<^verbatim>\<open>_save_conversation_to_db\<close>, for the \<open>k\<close>-th writing of a call: an upsert under
  the identifier that the state carries; an exception of the store is caught.
\<close>

definition save_conversation_to_db ::
  "ext \<Rightarrow> nat \<Rightarrow> world \<Rightarrow> conversation_state \<Rightarrow> world" where
  "save_conversation_to_db x k w st =
    (if db_write_ok x k
     then w\<lparr>db_conversations := (db_conversations w)(conversation_id st \<mapsto> st)\<rparr>
     else w)"

text \<open>
  The row that \<^verbatim>\<open>_create_lead\<close> builds.  The three contact fields are subscripted:
  a contact record that lacks one of them raises \<^verbatim>\<open>KeyError\<close> (here \<open>None\<close>).  The
  criteria are read with \<^verbatim>\<open>get\<close>, the two lists with the default \<^verbatim>\<open>[]\<close>.
\<close>

definition lead_data :: "conversation_state \<Rightarrow> pydict option" where
  "lead_data st =
    (case dict_item (contact_info st) ''name'' of
       None \<Rightarrow> None
     | Some name \<Rightarrow>
    (case dict_item (contact_info st) ''phone'' of
       None \<Rightarrow> None
     | Some phone \<Rightarrow>
    (case dict_item (contact_info st) ''email'' of
       None \<Rightarrow> None
     | Some email \<Rightarrow>
        Some [(''name'', py_or name (PStr ''Prospect'')),
              (''phone'', phone),
              (''email'', email),
              (''preferred_cities'',
                 (case dict_item (criteria st) ''preferred_cities'' of
                    None \<Rightarrow> PList [] | Some v \<Rightarrow> v)),
              (''preferred_types'',
                 (case dict_item (criteria st) ''preferred_types'' of
                    None \<Rightarrow> PList [] | Some v \<Rightarrow> v)),
              (''budget_min'', dict_get (criteria st) ''budget_min''),
              (''budget_max'', dict_get (criteria st) ''budget_max''),
              (''qualification_score'', PInt (qualification_score st)),
              (''source'', PStr ''chatbot''),
              (''status'', PStr ''nouveau'')])))"

text \<open>
  \<^verbatim>\<open>_create_lead\<close>: everything is inside one \<^verbatim>\<open>try\<close>, and any exception gives
  \<^verbatim>\<open>None\<close>.  The identifier is returned when the row is stored and the answer of the
  store holds it.
\<close>

definition create_lead :: "ext \<Rightarrow> world \<Rightarrow> conversation_state \<Rightarrow> world \<times> pyval" where
  "create_lead x w st =
    (case lead_data st of
       None \<Rightarrow> (w, PNone)
     | Some row \<Rightarrow>
        (case insert_lead x row of
           Insert_raises \<Rightarrow> (w, PNone)
         | Inserted_no_id \<Rightarrow> (w\<lparr>db_leads := db_leads w @ [row]\<rparr>, PNone)
         | Inserted new_id \<Rightarrow> (w\<lparr>db_leads := db_leads w @ [row]\<rparr>, new_id)))"

subsection \<open>Continuing a conversation\<close>

text \<open>The dictionary that \<^verbatim>\<open>continue_conversation\<close> returns.\<close>

record continue_result =
  cont_conversation_id :: string
  cont_turn :: turn_result
  cont_lead_id :: pyval

text \<open>
  \<^verbatim>\<open>continue_conversation\<close>.  The state that \<^verbatim>\<open>_get_conversation\<close> returns is the
  object held by the cache, so the cache sees every mutation of the turn, also when
  the turn raises.  Nothing in it reads the status of the conversation.
\<close>

definition continue_conversation ::
  "ext \<Rightarrow> world \<Rightarrow> string \<Rightarrow> string \<Rightarrow> world \<times> (error + continue_result)" where
  "continue_conversation x w0 cid user_message =
    (case get_conversation x w0 cid of
       (w, None) \<Rightarrow> (w, Inl ValueError_not_found)
     | (w, Some st0) \<Rightarrow>
        (case process_message x st0 user_message of
           (st, Inl e) \<Rightarrow>
             (w\<lparr>conversations_cache := (conversations_cache w)(cid \<mapsto> st)\<rparr>, Inl e)
         | (st, Inr (result, search_run)) \<Rightarrow>
            (let w = w\<lparr>conversations_cache := (conversations_cache w)(cid \<mapsto> st)\<rparr>;
                 w = save_conversation_to_db x 0 w st
             in if truthy (res_should_create_lead result) \<and> \<not> truthy (lead_id st)
                then (case create_lead x w st of
                        (w, new_id) \<Rightarrow>
                          (let st = st\<lparr>lead_id := new_id\<rparr>;
                               w = w\<lparr>conversations_cache := (conversations_cache w)(cid \<mapsto> st)\<rparr>;
                               w = save_conversation_to_db x 1 w st
                           in (w, Inr \<lparr>cont_conversation_id = cid, cont_turn = result,
                                       cont_lead_id = py_or new_id (lead_id st)\<rparr>)))
                else (w, Inr \<lparr>cont_conversation_id = cid, cont_turn = result,
                              cont_lead_id = py_or PNone (lead_id st)\<rparr>))))"

subsection \<open>Ending a conversation\<close>

text \<open>
  The pieces of \<^verbatim>\<open>_generate_summary\<close> that format a value.  \<^verbatim>\<open>f"{v}"\<close> never
  raises, and gives a string as it is.  \<^verbatim>\<open>', '.join(v)\<close> takes a list of strings or
  a string, whose characters it joins, and raises \<^verbatim>\<open>TypeError\<close> on anything else.
  \<^verbatim>\<open>f"{v:,.0f}"\<close> turns an integer into a float first, which raises
  \<^verbatim>\<open>OverflowError\<close> from \<open>2 ^ 1024 - 2 ^ 970\<close> on (the integers that round to
  \<open>2 ^ 1024\<close>); the format code does not apply to a string (\<^verbatim>\<open>ValueError\<close>) nor
  to a list or \<^verbatim>\<open>None\<close> (\<^verbatim>\<open>TypeError\<close>).
\<close>

definition py_str :: "ext \<Rightarrow> pyval \<Rightarrow> string" where
  "py_str x v = (case v of PStr s \<Rightarrow> s | _ \<Rightarrow> fmt_value x v)"

definition join_text :: "pyval \<Rightarrow> error + string" where
  "join_text v =
    (case v of
       PList xs \<Rightarrow> Inr (py_join '', '' xs)
     | PStr s \<Rightarrow> Inr (py_join '', '' (map (\<lambda>c. [c]) s))
     | _ \<Rightarrow> Inl TypeError)"

definition format_amount :: "ext \<Rightarrow> pyval \<Rightarrow> error + string" where
  "format_amount x v =
    (case v of
       PInt n \<Rightarrow> (if 2 ^ 1024 - 2 ^ 970 \<le> \<bar>n\<bar> then Inl OverflowError
                  else Inr (fmt_amount x n))
     | PBool b \<Rightarrow> Inr (fmt_amount x (if b then 1 else 0))
     | PStr s \<Rightarrow> Inl ValueError_format
     | _ \<Rightarrow> Inl TypeError)"

text \<open>
  \<^verbatim>\<open>_generate_summary\<close>: the pieces in the order in which the source formats them,
  so that the first one that raises decides.
\<close>

definition generate_summary :: "ext \<Rightarrow> conversation_state \<Rightarrow> error + string" where
  "generate_summary x st =
    (let name_text = (if truthy (dict_get (contact_info st) ''name'')
                      then py_str x (dict_get (contact_info st) ''name'') @ '' '' else [])
     in
    (case (if truthy (dict_get (criteria st) ''preferred_types'')
           then join_text (dict_get (criteria st) ''preferred_types'') else Inr []) of
       Inl e \<Rightarrow> Inl e
     | Inr types_text \<Rightarrow>
    (case (if truthy (dict_get (criteria st) ''preferred_cities'')
           then join_text (dict_get (criteria st) ''preferred_cities'') else Inr []) of
       Inl e \<Rightarrow> Inl e
     | Inr cities_text \<Rightarrow>
    (case (if truthy (dict_get (criteria st) ''budget_max'')
           then format_amount x (dict_get (criteria st) ''budget_max'') else Inr []) of
       Inl e \<Rightarrow> Inl e
     | Inr budget_text \<Rightarrow>
        Inr (''Prospect ''
             @ name_text
             @ ''recherche ''
             @ (if truthy (dict_get (criteria st) ''preferred_types'')
                then types_text @ '' '' else ''un bien '')
             @ (if truthy (dict_get (criteria st) ''preferred_cities'')
                then [CHR 0xE0] @ '' '' @ cities_text @ '' '' else [])
             @ (if truthy (dict_get (criteria st) ''budget_max'')
                then ''budget max '' @ budget_text @ '' MAD '' else [])
             @ ''(Score: '' @ py_str x (PInt (qualification_score st)) @ ''/100)'')))))"

text \<open>The dictionary that \<^verbatim>\<open>end_conversation\<close> returns for a conversation it found.\<close>

record end_result =
  end_conversation_id :: string
  end_status :: string
  end_qualification_score :: int
  end_lead_quality :: string
  end_lead_created :: bool
  end_lead_id :: pyval
  end_messages_count :: nat
  end_summary :: string

text \<open>
  \<^verbatim>\<open>end_conversation\<close>.  An unknown conversation gives the dictionary with the key
  \<^verbatim>\<open>error\<close> (here \<open>Inr None\<close>); an exception of the summary leaves the function
  after the lead has been inserted and before anything is marked or saved.
\<close>

definition end_conversation ::
  "ext \<Rightarrow> world \<Rightarrow> string \<Rightarrow> string \<Rightarrow> world \<times> (error + end_result option)" where
  "end_conversation x w0 cid reason =
    (case get_conversation x w0 cid of
       (w, None) \<Rightarrow> (w, Inr None)
     | (w, Some st) \<Rightarrow>
        (case (if \<not> truthy (lead_id st) \<and> qualification_score st \<ge> 50
               then (case create_lead x w st of (w, new_id) \<Rightarrow> (w, new_id, True))
               else (w, lead_id st, False)) of
           (w, lead_id_local, lead_created) \<Rightarrow>
            (case generate_summary x st of
               Inl e \<Rightarrow> (w, Inl e)
             | Inr summary \<Rightarrow>
                (let st = st\<lparr>status := ''completed''\<rparr>;
                     st = st\<lparr>ended_at := PStr (ts_end x)\<rparr>;
                     st = st\<lparr>end_reason := PStr reason\<rparr>;
                     w = save_conversation_to_db x 0 w st;
                     w = (if conversations_cache w cid \<noteq> None
                          then w\<lparr>conversations_cache := (conversations_cache w)(cid := None)\<rparr>
                          else w)
                 in (w, Inr (Some \<lparr>end_conversation_id = cid,
                                    end_status = ''completed'',
                                    end_qualification_score = qualification_score st,
                                    end_lead_quality = lead_quality st,
                                    end_lead_created = lead_created,
                                    end_lead_id = lead_id_local,
                                    end_messages_count = length (messages st),
                                    end_summary = summary\<rparr>))))))"

section \<open>The workflow (\<^verbatim>\<open>app/ai/state.py\<close>, \<^verbatim>\<open>app/ai/workflow.py\<close>)\<close>

text \<open>
  The fields of \<^verbatim>\<open>ConversationState\<close> that the nodes after the extraction read or
  write.  The message history is left out: the graph library accumulates it through
  the reducer declared for that field, and no function modelled here reads it.  The
  score and the quality carry the prefix \<open>wf\<close> to keep them apart from the agent's.
\<close>

record wf_state =
  current_user_message :: string
  assistant_response :: string
  budget_defined :: bool
  location_defined :: bool
  property_type_defined :: bool
  timeframe_defined :: bool
  contact_info_complete :: bool
  specific_criteria_count :: int
  engagement_level :: int
  wf_qualification_score :: int
  wf_lead_quality :: string
  matched_properties :: "pydict list"
  properties_shown :: bool
  conversation_complete :: bool
  should_create_lead :: bool
  conversation_summary :: string

text \<open>
  The collaborators of the workflow: the answer of the language model in the
  extraction node, read as the state it leads to; the property search, which raises
  when its criteria object rejects a field of the state and otherwise returns what it
  finds (nothing when the query raises); the reply of the language model, where the
  building of the prompt may raise and a failure of the call itself (\<open>None\<close>) is
  caught; and the summary, where again only the building of the prompt raises.
\<close>

record wf_ext =
  wf_extract :: "wf_state \<Rightarrow> wf_state"
  wf_search :: "wf_state \<Rightarrow> error + pydict list"
  wf_reply :: "wf_state \<Rightarrow> error + string option"
  wf_summary :: "wf_state \<Rightarrow> error + string"

text \<open>\<^verbatim>\<open>is_ready_for_property_search\<close>: \<^verbatim>\<open>sum\<close> counts a true flag as one.\<close>

definition is_ready_for_property_search :: "wf_state \<Rightarrow> bool" where
  "is_ready_for_property_search state =
    (let has_budget = budget_defined state;
         has_location = location_defined state;
         has_property_type = property_type_defined state;
         criteria_count =
           sum_list (map (\<lambda>b. if b then 1 else 0) [has_budget, has_location, has_property_type]);
         ready = ((2::int) \<le> criteria_count)
     in ready)"

text \<open>\<^verbatim>\<open>is_lead_qualified\<close>.\<close>

definition is_lead_qualified :: "wf_state \<Rightarrow> bool" where
  "is_lead_qualified state = (wf_qualification_score state \<ge> 50)"

text \<open>\<^verbatim>\<open>_process_user_input\<close>.\<close>

definition process_user_input :: "wf_state \<Rightarrow> wf_state" where
  "process_user_input state = state\<lparr>engagement_level := min (engagement_level state + 1) 10\<rparr>"

text \<open>\<^verbatim>\<open>create_initial_state\<close>, on the fields of the record.\<close>

definition create_initial_state :: wf_state where
  "create_initial_state =
    \<lparr>current_user_message = [], assistant_response = [],
     budget_defined = False, location_defined = False, property_type_defined = False,
     timeframe_defined = False, contact_info_complete = False,
     specific_criteria_count = 0, engagement_level = 0,
     wf_qualification_score = 0, wf_lead_quality = ''cold'',
     matched_properties = [], properties_shown = False,
     conversation_complete = False, should_create_lead = False,
     conversation_summary = []\<rparr>"

text \<open>
  \<^verbatim>\<open>QualificationWorkflow._extract_criteria\<close> and \<^verbatim>\<open>update_state_with_criteria\<close>:
  of the fields of the record, the node writes the five flags and the count of
  specific criteria, and nothing when the call or the parsing raises (the answer
  \<open>wf_extract\<close> is then the state itself).
\<close>

definition wf_extract_criteria :: "wf_ext \<Rightarrow> wf_state \<Rightarrow> wf_state" where
  "wf_extract_criteria x state =
    (let extracted = wf_extract x state
     in state\<lparr>budget_defined := budget_defined extracted,
              location_defined := location_defined extracted,
              property_type_defined := property_type_defined extracted,
              specific_criteria_count := specific_criteria_count extracted,
              timeframe_defined := timeframe_defined extracted,
              contact_info_complete := contact_info_complete extracted\<rparr>)"

text \<open>\<^verbatim>\<open>QualificationWorkflow._calculate_score\<close>.\<close>

definition wf_calculate_score :: "wf_state \<Rightarrow> error + wf_state" where
  "wf_calculate_score state0 =
    (case calculate_qualification_score (budget_defined state0) (location_defined state0)
            (property_type_defined state0) (timeframe_defined state0)
            (contact_info_complete state0) (specific_criteria_count state0)
            (engagement_level state0) of
       Inl e \<Rightarrow> Inl e
     | Inr score \<Rightarrow>
        (let state = state0\<lparr>wf_qualification_score := score\<rparr>;
             state = state\<lparr>wf_lead_quality := classify_lead_quality score\<rparr>;
             state = state\<lparr>should_create_lead :=
                       (is_lead_qualified state \<and> contact_info_complete state)\<rparr>
         in Inr state))"

text \<open>
  \<^verbatim>\<open>_should_search_properties\<close>.  The first keyword is \<^verbatim>\<open>propriete\<close> with acute
  accents on both its e.
\<close>

definition should_search_properties :: "wf_state \<Rightarrow> string" where
  "should_search_properties state =
    (let should_search =
           (is_ready_for_property_search state \<and>
            (\<not> properties_shown state
             \<or> py_in (''propri'' @ [CHR 0xE9] @ ''t'' @ [CHR 0xE9])
                      (py_lower (current_user_message state))
             \<or> py_in ''bien'' (py_lower (current_user_message state))))
     in if should_search then ''search'' else ''skip'')"

text \<open>\<^verbatim>\<open>_search_properties\<close>.\<close>

definition search_properties :: "wf_ext \<Rightarrow> wf_state \<Rightarrow> error + wf_state" where
  "search_properties x state =
    (case wf_search x state of
       Inl e \<Rightarrow> Inl e
     | Inr properties \<Rightarrow>
        (let state = state\<lparr>matched_properties := properties\<rparr>;
             state = state\<lparr>properties_shown := True\<rparr>
         in Inr state))"

text \<open>
  \<^verbatim>\<open>_generate_response\<close>: the reply of the language model, or the fixed apology
  when the call raises.
\<close>

definition fallback_response :: string where
  "fallback_response =
    ''Je suis d'' @ [CHR 0xE9] @ ''sol'' @ [CHR 0xE9] @ '', j'' @ [CHR 0x27] @ ''ai rencontr''
    @ [CHR 0xE9] @ '' un probl'' @ [CHR 0xE8]
    @ ''me technique. Pouvez-vous reformuler votre message ?''"

definition generate_response :: "wf_ext \<Rightarrow> wf_state \<Rightarrow> error + wf_state" where
  "generate_response x state =
    (case wf_reply x state of
       Inl e \<Rightarrow> Inl e
     | Inr (Some assistant_message) \<Rightarrow> Inr (state\<lparr>assistant_response := assistant_message\<rparr>)
     | Inr None \<Rightarrow> Inr (state\<lparr>assistant_response := fallback_response\<rparr>))"

text \<open>
  \<^verbatim>\<open>_should_continue_conversation\<close>.  The words are \<^verbatim>\<open>merci\<close>, \<^verbatim>\<open>au revoir\<close>,
  \<^verbatim>\<open>bye\<close>, \<^verbatim>\<open>stop\<close>, \<^verbatim>\<open>termine\<close> (acute accent on the last letter), \<^verbatim>\<open>fini\<close>
  and \<^verbatim>\<open>ca suffit\<close> (with a cedilla).
\<close>

definition farewell_words :: "string list" where
  "farewell_words =
    [''merci'', ''au revoir'', ''bye'', ''stop'', ''termin'' @ [CHR 0xE9], ''fini'',
     [CHR 0xE7] @ ''a suffit'']"

definition should_continue_conversation :: "wf_state \<Rightarrow> string" where
  "should_continue_conversation state =
    (let user_wants_to_end = any_in farewell_words (py_lower (current_user_message state));
         should_finalize =
           ((should_create_lead state \<and> contact_info_complete state) \<or> user_wants_to_end)
     in if should_finalize then ''finalize'' else ''continue'')"

text \<open>\<^verbatim>\<open>_finalize_conversation\<close>.\<close>

definition finalize_conversation :: "wf_ext \<Rightarrow> wf_state \<Rightarrow> error + wf_state" where
  "finalize_conversation x state0 =
    (case wf_summary x state0 of
       Inl e \<Rightarrow> Inl e
     | Inr summary \<Rightarrow>
        (let state = state0\<lparr>conversation_summary := summary\<rparr>;
             state = state\<lparr>conversation_complete := True\<rparr>
         in Inr state))"

text \<open>
  \<^verbatim>\<open>QualificationWorkflow.run\<close>: the nodes in the order of the edges of
  \<^verbatim>\<open>_build_graph\<close>; an exception of a node ends the run.  The second component of
  the result tells whether the search node ran.
\<close>

definition run :: "wf_ext \<Rightarrow> string \<Rightarrow> wf_state option \<Rightarrow> error + wf_state \<times> bool" where
  "run x user_message existing_state =
    (let state = (case existing_state of None \<Rightarrow> create_initial_state | Some s \<Rightarrow> s);
         state = state\<lparr>current_user_message := user_message\<rparr>;
         state = process_user_input state;
         state = wf_extract_criteria x state
     in case wf_calculate_score state of
          Inl e \<Rightarrow> Inl e
        | Inr state \<Rightarrow>
    (let searched = (should_search_properties state = ''search'')
     in case (if searched then search_properties x state else Inr state) of
          Inl e \<Rightarrow> Inl e
        | Inr state \<Rightarrow>
    (case generate_response x state of
       Inl e \<Rightarrow> Inl e
     | Inr state \<Rightarrow>
    (case (if should_continue_conversation state = ''finalize''
           then finalize_conversation x state else Inr state) of
       Inl e \<Rightarrow> Inl e
     | Inr state \<Rightarrow> Inr (state, searched)))))"

section \<open>Notions used to state the properties\<close>

text \<open>The points of one signal.\<close>

definition pts :: "int \<Rightarrow> bool \<Rightarrow> int" where
  "pts n b = (if b then n else 0)"

text \<open>The sum of the points of the nine signals of the agent's score.\<close>

definition turn_points :: "pydict \<Rightarrow> pydict \<Rightarrow> int" where
  "turn_points cr ci =
     0 + pts 25 (truthy (dict_get cr ''budget_min'') \<or> truthy (dict_get cr ''budget_max''))
   + pts 20 (truthy (dict_get cr ''preferred_cities''))
   + pts 15 (truthy (dict_get cr ''preferred_types''))
   + pts 10 (truthy (dict_get cr ''transaction_type''))
   + pts 5 (truthy (dict_get cr ''rooms''))
   + pts 5 (truthy (dict_get cr ''area''))
   + pts 5 (truthy (dict_get ci ''name''))
   + pts 10 (truthy (dict_get ci ''phone''))
   + pts 5 (truthy (dict_get ci ''email''))"

text \<open>
  The conversational-turn score as the specification words it: a signal counts when
  its key is present, that is, when the dictionary holds a value other than
  \<^verbatim>\<open>None\<close> for it.
\<close>

definition present :: "pydict \<Rightarrow> string \<Rightarrow> bool" where
  "present d k = (dict_get d k \<noteq> PNone)"

definition spec_turn_score :: "pydict \<Rightarrow> pydict \<Rightarrow> int" where
  "spec_turn_score cr ci =
     min (pts 25 (present cr ''budget_min'' \<or> present cr ''budget_max'')
        + pts 20 (present cr ''preferred_cities'')
        + pts 15 (present cr ''preferred_types'')
        + pts 10 (present cr ''transaction_type'')
        + pts 5 (present cr ''rooms'')
        + pts 5 (present cr ''area'')
        + pts 5 (present ci ''name'')
        + pts 10 (present ci ''phone'')
        + pts 5 (present ci ''email'')) 100"

text \<open>The messages of a cached conversation and of a stored one.\<close>

definition cached_messages :: "world \<Rightarrow> string \<Rightarrow> message list" where
  "cached_messages w cid =
    (case conversations_cache w cid of None \<Rightarrow> [] | Some s \<Rightarrow> messages s)"

definition stored_messages :: "world \<Rightarrow> string \<Rightarrow> message list" where
  "stored_messages w cid =
    (case db_conversations w cid of None \<Rightarrow> [] | Some s \<Rightarrow> messages s)"

section \<open>Concrete conversations\<close>

text \<open>
  Collaborators that always answer: the model replies \<^verbatim>\<open>ok\<close>, the search finds
  nothing, the insertion of a lead returns the identifier \<^verbatim>\<open>lead-1\<close>, the store reads
  and writes, and the formatting never raises.
\<close>

definition ex_ext :: ext where
  "ex_ext =
    \<lparr>ts_user = ''t1'', ts_assistant = ''t2'', ts_end = ''t3'',
     ai_response = (\<lambda>st found. Inr ''ok''),
     match_properties = (\<lambda>cr. []),
     insert_lead = (\<lambda>row. Inserted (PStr ''lead-1'')),
     db_read_ok = True, db_write_ok = (\<lambda>k. True),
     fmt_value = (\<lambda>v. ''v''), fmt_amount = (\<lambda>n. ''a'')\<rparr>"

text \<open>The state that \<^verbatim>\<open>start_conversation\<close> builds, before any message.\<close>

definition ex_fresh :: conversation_state where
  "ex_fresh =
    \<lparr>conversation_id = ''c1'', messages = [], criteria = [],
     contact_info = [(''name'', PNone), (''phone'', PNone), (''email'', PNone)],
     qualification_score = 0, lead_quality = ''cold'', status = ''active'',
     lead_id = PNone, created_at = ''t0'', user_id = PNone,
     ended_at = PNone, end_reason = PNone\<rparr>"

text \<open>A conversation with budget, city and type but no contact: score 60, no lead.\<close>

definition ex_qualified :: conversation_state where
  "ex_qualified =
    ex_fresh\<lparr>criteria := [(''preferred_cities'', PList [''Rabat'']),
                          (''preferred_types'', PList [''villa'']),
                          (''budget_max'', PInt 2000000)],
             qualification_score := 60, lead_quality := ''warm''\<rparr>"


text \<open>A world whose table holds one conversation and whose cache is empty.\<close>

definition ex_world :: "conversation_state \<Rightarrow> world" where
  "ex_world s =
    \<lparr>conversations_cache = Map.empty,
     db_conversations = [conversation_id s \<mapsto> s],
     db_leads = []\<rparr>"

text \<open>
  Collaborators of the workflow: the extraction finds a budget, a city, a type of
  property and a time frame but no contact, the search finds nothing, the model
  replies \<^verbatim>\<open>ok\<close>.
\<close>

definition ex_wf_ext :: wf_ext where
  "ex_wf_ext =
    \<lparr>wf_extract = (\<lambda>s. s\<lparr>budget_defined := True, location_defined := True,
                              property_type_defined := True, timeframe_defined := True\<rparr>),
     wf_search = (\<lambda>s. Inr []),
     wf_reply = (\<lambda>s. Inr (Some ''ok'')),
     wf_summary = (\<lambda>s. Inr ''summary'')\<rparr>"

section \<open>Properties of the dictionaries\<close>

lemma dict_get_dict_set:
  "dict_get (dict_set k v d) k' = (if k' = k then v else dict_get d k')"
  by (induction d) (auto simp: dict_get_def)

lemma map_of_dict_set:
  "map_of (dict_set k v d) k' = (if k' = k then Some v else map_of d k')"
  by (induction d) auto

lemma truthy_py_or: "truthy (py_or a b) = (truthy a \<or> truthy b)"
  by (simp add: py_or_def)

lemma truthy_py_and: "truthy (py_and a b) = (truthy a \<and> truthy b)"
  by (simp add: py_and_def)

section \<open>The scores\<close>

lemma pts_nonneg: "0 \<le> n \<Longrightarrow> 0 \<le> pts n b"
  by (simp add: pts_def)

lemma pts_le: "0 \<le> n \<Longrightarrow> pts n b \<le> n"
  by (simp add: pts_def)

lemma pts_mono: "0 \<le> n \<Longrightarrow> (a \<longrightarrow> b) \<Longrightarrow> pts n a \<le> pts n b"
  by (simp add: pts_def)

lemma if_add_pts: "(if b then s + n else s) = s + pts n b"
  by (simp add: pts_def)

lemma calculate_score_min: "calculate_score cr ci = min (turn_points cr ci) 100"
  unfolding calculate_score_def Let_def if_add_pts truthy_py_or turn_points_def ..

lemma turn_points_le: "turn_points cr ci \<le> 100"
proof -
  have "turn_points cr ci \<le> 0 + 25 + 20 + 15 + 10 + 5 + 5 + 5 + 10 + 5"
    unfolding turn_points_def by (intro add_mono pts_le order_refl) simp_all
  then show ?thesis by simp
qed

lemma turn_points_nonneg: "0 \<le> turn_points cr ci"
  unfolding turn_points_def by (intro add_nonneg_nonneg pts_nonneg order_refl) simp_all

lemma calculate_score_pts: "calculate_score cr ci = turn_points cr ci"
  using turn_points_le [of cr ci] by (simp add: calculate_score_min)

lemma calculate_score_range: "0 \<le> calculate_score cr ci \<and> calculate_score cr ci \<le> 100"
  using turn_points_le [of cr ci] turn_points_nonneg [of cr ci] by (simp add: calculate_score_pts)

text \<open>A dictionary that is true wherever another one is scores at least as much.\<close>

lemma calculate_score_mono:
  assumes "\<And>k. truthy (dict_get c k) \<Longrightarrow> truthy (dict_get c' k)"
      and "\<And>k. truthy (dict_get i k) \<Longrightarrow> truthy (dict_get i' k)"
  shows "calculate_score c i \<le> calculate_score c' i'"
  unfolding calculate_score_pts turn_points_def
  by (intro add_mono pts_mono order_refl) (use assms in auto)

lemma calculate_score_add_criterion:
  assumes "\<not> truthy (dict_get c key)"
  shows "calculate_score c i \<le> calculate_score (dict_set key v c) i"
  by (rule calculate_score_mono) (use assms in \<open>auto simp: dict_get_dict_set\<close>)

lemma calculate_score_add_contact:
  assumes "\<not> truthy (dict_get i key)"
  shows "calculate_score c i \<le> calculate_score c (dict_set key v i)"
  by (rule calculate_score_mono) (use assms in \<open>auto simp: dict_get_dict_set\<close>)

text \<open>On the levels that the workflow passes the half is the exact one.\<close>

lemma int_half_exact:
  assumes "0 \<le> e" and "e < 2 ^ 53"
  shows "int_half e = Inr (e div 2)"
proof -
  have "sgn e * (\<bar>e\<bar> div 2) = e div 2"
    using assms(1) by (cases "e = 0") simp_all
  then show ?thesis using assms by (simp add: int_half_def Let_def)
qed

lemma calculate_qualification_score_pts:
  assumes "0 \<le> e" and "e \<le> 10"
  shows "calculate_qualification_score b l p t c n e =
     Inr (0 + pts 25 b + pts 20 l + pts 15 p + pts 10 t + pts 15 c
          + min (n * 5) 10 + min (e div 2) 5)"
proof -
  have "int_half e = Inr (e div 2)" using assms by (intro int_half_exact) simp_all
  then show ?thesis
    unfolding calculate_qualification_score_def Let_def if_add_pts by simp
qed

lemma qualification_points_le:
  "0 + pts 25 b + pts 20 l + pts 15 p + pts 10 t + pts 15 c
     + min (n * 5) 10 + min (e div 2) 5 \<le> (100::int)"
proof -
  have "0 + pts 25 b + pts 20 l + pts 15 p + pts 10 t + pts 15 c
     + min (n * 5) 10 + min (e div 2) 5 \<le> 0 + 25 + 20 + 15 + 10 + 15 + 10 + (5::int)"
    by (intro add_mono pts_le order_refl min.cobounded2) simp_all
  then show ?thesis by simp
qed

lemma qualification_points_nonneg:
  assumes "0 \<le> n" and "0 \<le> e"
  shows "(0::int) \<le> 0 + pts 25 b + pts 20 l + pts 15 p + pts 10 t + pts 15 c
     + min (n * 5) 10 + min (e div 2) 5"
proof -
  have "0 \<le> min (n * 5) 10" using assms(1) by simp
  moreover have "0 \<le> min (e div 2) 5" using assms(2) by simp
  ultimately show ?thesis
    by (intro add_nonneg_nonneg pts_nonneg order_refl) simp_all
qed

lemma qualification_points_mono:
  assumes "b \<longrightarrow> b'" "l \<longrightarrow> l'" "p \<longrightarrow> p'" "t \<longrightarrow> t'" "c \<longrightarrow> c'" "n \<le> n'" "e \<le> e'"
  shows "0 + pts 25 b + pts 20 l + pts 15 p + pts 10 t + pts 15 c
           + min (n * 5) 10 + min (e div 2) 5
       \<le> 0 + pts 25 b' + pts 20 l' + pts 15 p' + pts 10 t' + pts 15 c'
           + min (n' * 5) 10 + min (e' div 2) (5::int)"
proof -
  have 1: "min (n * 5) 10 \<le> min (n' * 5) 10" using assms(6) by simp
  have 2: "min (e div 2) 5 \<le> min (e' div 2) 5"
    using zdiv_mono1 [OF assms(7), of 2] by simp
  show ?thesis
    by (intro add_mono pts_mono order_refl 1 2) (use assms in simp_all)
qed

section \<open>Claims about scoring and classification\<close>

lemma classify_lead_quality_spec:
  "(classify_lead_quality s = ''hot'' \<longleftrightarrow> 70 \<le> s)
   \<and> (classify_lead_quality s = ''warm'' \<longleftrightarrow> 50 \<le> s \<and> s < 70)
   \<and> (classify_lead_quality s = ''cold'' \<longleftrightarrow> s < 50)"
  by (auto simp: classify_lead_quality_def)

lemma determine_lead_quality_cases:
  "(determine_lead_quality s = ''hot'' \<longleftrightarrow> 70 \<le> s)
   \<and> (determine_lead_quality s = ''warm'' \<longleftrightarrow> 40 \<le> s \<and> s < 70)
   \<and> (determine_lead_quality s = ''cold'' \<longleftrightarrow> s < 40)"
  by (auto simp: determine_lead_quality_def)

text \<open>
  Claim C2.  The claim wants one classification for the whole system: hot from 70,
  warm from 50 to 69, cold below.  The tools' \<open>classify_lead_quality\<close> is that
  classification, but the agent's \<open>determine_lead_quality\<close> calls a score from 40 to 49
  warm: at the score 45 the two components give different labels.
\<close>

theorem lead_quality_components_disagree_at_45:
  "determine_lead_quality 45 = ''warm'' \<and> classify_lead_quality 45 = ''cold''"
  by (simp add: determine_lead_quality_def classify_lead_quality_def)

text \<open>
  Claim C4, as stated, fails: a key that is present with the value zero (the text
  \<^verbatim>\<open>0 chambres\<close> stores \<^verbatim>\<open>rooms = 0\<close>) earns no points, because the code tests the
  truth value of what \<^verbatim>\<open>get\<close> returns.
\<close>

theorem calculate_score_present_counterexample:
  "calculate_score [(''rooms'', PInt 0)] [] \<noteq> spec_turn_score [(''rooms'', PInt 0)] []"
  by (simp add: calculate_score_pts turn_points_def spec_turn_score_def present_def
        dict_get_def pts_def)

text \<open>
  Claim C4, amended: for every criteria mapping and contact record the
  conversational-turn score is exactly the sum of 25 if \<^verbatim>\<open>budget_min\<close> or
  \<^verbatim>\<open>budget_max\<close> holds a true value (not \<^verbatim>\<open>None\<close>, zero or empty), 20 for
  \<^verbatim>\<open>preferred_cities\<close>, 15 for \<^verbatim>\<open>preferred_types\<close>, 10 for \<^verbatim>\<open>transaction_type\<close>,
  5 for \<^verbatim>\<open>rooms\<close>, 5 for \<^verbatim>\<open>area\<close>, 5 for the contact name, 10 for the phone and 5
  for the email, each counted when the value is true; the clipping at 100 never
  acts, and the result is an integer from 0 to 100.
\<close>

theorem calculate_score_is_sum_of_true_signals:
  "calculate_score cr ci =
     pts 25 (truthy (dict_get cr ''budget_min'') \<or> truthy (dict_get cr ''budget_max''))
   + pts 20 (truthy (dict_get cr ''preferred_cities''))
   + pts 15 (truthy (dict_get cr ''preferred_types''))
   + pts 10 (truthy (dict_get cr ''transaction_type''))
   + pts 5 (truthy (dict_get cr ''rooms''))
   + pts 5 (truthy (dict_get cr ''area''))
   + pts 5 (truthy (dict_get ci ''name''))
   + pts 10 (truthy (dict_get ci ''phone''))
   + pts 5 (truthy (dict_get ci ''email''))
   \<and> 0 \<le> calculate_score cr ci \<and> calculate_score cr ci \<le> 100"
  using calculate_score_range [of cr ci] by (simp add: calculate_score_pts turn_points_def)

theorem calculate_score_is_sum_of_true_signals_witness:
  "calculate_score [(''budget_max'', PInt 2000000), (''rooms'', PInt 0)]
                   [(''name'', PNone), (''phone'', PStr ''0''), (''email'', PNone)] = 35"
  using calculate_score_is_sum_of_true_signals
          [of "[(''budget_max'', PInt 2000000), (''rooms'', PInt 0)]"
              "[(''name'', PNone), (''phone'', PStr ''0''), (''email'', PNone)]"]
  by (simp add: dict_get_def pts_def)

text \<open>
  Claim C5.  Both scores are in [0, 100] and never decrease when a signal is added.
  For the agent's score a signal is added by storing a value under a key whose value
  was not true before, in the criteria or in the contact record.  For the workflow's
  score the engagement levels are in [0, 10], as the claim says, and the number of
  specific criteria is a count, so not negative, for the lower bound: the score is
  returned, it is in [0, 100], and it does not decrease when a flag goes from false to
  true, the count grows or the engagement grows.
\<close>

theorem scores_bounded_and_monotone:
  "(0 \<le> calculate_score c i \<and> calculate_score c i \<le> 100)
   \<and> (\<not> truthy (dict_get c key) \<longrightarrow> calculate_score c i \<le> calculate_score (dict_set key v c) i)
   \<and> (\<not> truthy (dict_get i key') \<longrightarrow> calculate_score c i \<le> calculate_score c (dict_set key' v' i))
   \<and> (0 \<le> n \<and> 0 \<le> e \<and> e \<le> 10 \<longrightarrow>
        (\<exists>s. calculate_qualification_score b l p t k n e = Inr s \<and> 0 \<le> s \<and> s \<le> 100))
   \<and> ((b \<longrightarrow> b') \<and> (l \<longrightarrow> l') \<and> (p \<longrightarrow> p') \<and> (t \<longrightarrow> t') \<and> (k \<longrightarrow> k') \<and> n \<le> n'
        \<and> 0 \<le> e \<and> e \<le> e' \<and> e' \<le> 10 \<longrightarrow>
        (\<exists>s s'. calculate_qualification_score b l p t k n e = Inr s
            \<and> calculate_qualification_score b' l' p' t' k' n' e' = Inr s'
            \<and> s \<le> s'))"
proof (intro conjI impI)
  show "0 \<le> calculate_score c i" "calculate_score c i \<le> 100"
    using calculate_score_range [of c i] by simp_all
next
  assume "\<not> truthy (dict_get c key)"
  then show "calculate_score c i \<le> calculate_score (dict_set key v c) i"
    by (rule calculate_score_add_criterion)
next
  assume "\<not> truthy (dict_get i key')"
  then show "calculate_score c i \<le> calculate_score c (dict_set key' v' i)"
    by (rule calculate_score_add_contact)
next
  assume a: "0 \<le> n \<and> 0 \<le> e \<and> e \<le> 10"
  then show "\<exists>s. calculate_qualification_score b l p t k n e = Inr s \<and> 0 \<le> s \<and> s \<le> 100"
    using qualification_points_le [of b l p t k n e]
          qualification_points_nonneg [of n e b l p t k]
    by (simp add: calculate_qualification_score_pts)
next
  assume a: "(b \<longrightarrow> b') \<and> (l \<longrightarrow> l') \<and> (p \<longrightarrow> p') \<and> (t \<longrightarrow> t') \<and> (k \<longrightarrow> k') \<and> n \<le> n'
        \<and> 0 \<le> e \<and> e \<le> e' \<and> e' \<le> 10"
  then have "0 \<le> e" "e \<le> 10" "0 \<le> e'" "e' \<le> 10" by simp_all
  then show "\<exists>s s'. calculate_qualification_score b l p t k n e = Inr s
            \<and> calculate_qualification_score b' l' p' t' k' n' e' = Inr s'
            \<and> s \<le> s'"
    using a qualification_points_mono [of b b' l l' p p' t t' k k' n n' e e']
    by (simp add: calculate_qualification_score_pts)
qed

theorem scores_bounded_and_monotone_witness:
  "calculate_score [] [(''phone'', PNone)] \<le> calculate_score [(''rooms'', PInt 3)] [(''phone'', PNone)]
   \<and> calculate_score [] [(''phone'', PNone)] \<le> calculate_score [] [(''phone'', PStr ''0'')]
   \<and> calculate_qualification_score True False False False False 1 3 = Inr 31
   \<and> calculate_qualification_score True True False False False 2 4 = Inr 57
   \<and> (\<exists>s s'. calculate_qualification_score True False False False False 1 3 = Inr s
         \<and> calculate_qualification_score True True False False False 2 4 = Inr s'
         \<and> 0 \<le> s \<and> s \<le> 100 \<and> s \<le> s')"
proof -
  have v: "calculate_qualification_score True False False False False 1 3 = Inr 31"
    "calculate_qualification_score True True False False False 2 4 = Inr 57"
    by (simp_all add: calculate_qualification_score_pts pts_def)
  from scores_bounded_and_monotone
          [where c = "[]" and i = "[(''phone'', PNone)]" and key = "''rooms''" and v = "PInt 3"
             and key' = "''phone''" and v' = "PStr ''0''" and n = 1 and e = 3
             and b = True and l = False and p = False and t = False and k = False
             and b' = True and l' = True and p' = False and t' = False and k' = False
             and n' = 2 and e' = 4]
  have "calculate_score [] [(''phone'', PNone)]
          \<le> calculate_score [(''rooms'', PInt 3)] [(''phone'', PNone)]"
    and "calculate_score [] [(''phone'', PNone)] \<le> calculate_score [] [(''phone'', PStr ''0'')]"
    and "\<exists>s s'. calculate_qualification_score True False False False False 1 3 = Inr s
         \<and> calculate_qualification_score True True False False False 2 4 = Inr s'
         \<and> s \<le> s'"
    by (simp_all add: dict_get_def)
  with v show ?thesis by simp
qed

section \<open>One turn of the agent\<close>

lemma process_message_Inr:
  assumes "process_message x st m = (st', Inr (r, sr))"
  shows "res_should_create_lead r =
           py_and (py_and (PBool (50 \<le> res_qualification_score r))
                          (dict_get (contact_info st') ''name''))
                  (dict_get (contact_info st') ''phone'')"
    and "res_conversation_complete r =
           (70 \<le> res_qualification_score r \<or> 20 < length (messages st'))"
    and "sr = (criteria st' \<noteq> [])"
    and "res_qualification_score r = calculate_score (criteria st') (contact_info st')"
    and "qualification_score st' = res_qualification_score r"
    and "messages st' = messages st
           @ [\<lparr>role = ''user'', content = m, timestamp = ts_user x\<rparr>,
              \<lparr>role = ''assistant'', content = res_response r, timestamp = ts_assistant x\<rparr>]"
    and "status st' = status st"
    and "lead_id st' = lead_id st"
    and "conversation_id st' = conversation_id st"
    and "res_properties_shown r = (sr \<and> match_properties x (criteria st') \<noteq> [])"
  using assms unfolding process_message_def Let_def
  by (auto split: sum.splits)

lemma process_message_Inl:
  assumes "process_message x st m = (st', Inl e)"
  shows "messages st' = messages st
           @ [\<lparr>role = ''user'', content = m, timestamp = ts_user x\<rparr>]"
    and "status st' = status st"
    and "lead_id st' = lead_id st"
    and "conversation_id st' = conversation_id st"
  using assms unfolding process_message_def Let_def
  by (auto split: sum.splits)

text \<open>What the extraction of a turn decides.\<close>

lemma process_message_extraction:
  assumes "process_message x st m = (st', res)"
  shows "case extract_criteria
                (transcript (messages st
                   @ [\<lparr>role = ''user'', content = m, timestamp = ts_user x\<rparr>])) of
           Inl e \<Rightarrow> res = Inl e \<and> criteria st' = criteria st
                      \<and> contact_info st' = contact_info st
         | Inr new_criteria \<Rightarrow>
             criteria st' = dict_update (criteria st) new_criteria
             \<and> contact_info st' =
                 dict_update (contact_info st)
                   (extract_contact_info
                      (transcript (messages st
                         @ [\<lparr>role = ''user'', content = m, timestamp = ts_user x\<rparr>])))"
  using assms unfolding process_message_def Let_def
  by (auto split: sum.splits)

section \<open>Persistence\<close>

lemma cache_save [simp]:
  "conversations_cache (save_conversation_to_db x k w st) = conversations_cache w"
  by (simp add: save_conversation_to_db_def)

lemma leads_save [simp]: "db_leads (save_conversation_to_db x k w st) = db_leads w"
  by (simp add: save_conversation_to_db_def)

lemma cache_create_lead [simp]:
  "conversations_cache (fst (create_lead x w st)) = conversations_cache w"
  by (simp add: create_lead_def split: option.splits insert_result.splits)

lemma db_create_lead [simp]:
  "db_conversations (fst (create_lead x w st)) = db_conversations w"
  by (simp add: create_lead_def split: option.splits insert_result.splits)

text \<open>
  The row lands when the contact record has its three keys and the store does not
  raise; the identifier comes back when the answer of the store holds it.
\<close>

lemma leads_create_lead:
  "db_leads (fst (create_lead x w st)) =
     db_leads w @ (case lead_data st of
                     None \<Rightarrow> []
                   | Some row \<Rightarrow> if insert_lead x row = Insert_raises then [] else [row])"
  by (simp add: create_lead_def split: option.splits insert_result.splits)


lemma lead_data_keys:
  "lead_data st \<noteq> None \<longleftrightarrow>
     dict_item (contact_info st) ''name'' \<noteq> None
     \<and> dict_item (contact_info st) ''phone'' \<noteq> None
     \<and> dict_item (contact_info st) ''email'' \<noteq> None"
  by (simp add: lead_data_def split: option.splits)

section \<open>Ending a conversation\<close>

text \<open>What \<open>end_conversation\<close> does to a conversation that it finds.\<close>

lemma end_conversation_found:
  assumes "get_conversation x w cid = (w1, Some s)"
  shows "end_conversation x w cid reason =
    (let create = (\<not> truthy (lead_id s) \<and> 50 \<le> qualification_score s);
         w2 = (if create then fst (create_lead x w1 s) else w1);
         lid = (if create then snd (create_lead x w1 s) else lead_id s)
     in case generate_summary x s of
          Inl e \<Rightarrow> (w2, Inl e)
        | Inr summary \<Rightarrow>
           (let s' = s\<lparr>status := ''completed'', ended_at := PStr (ts_end x),
                        end_reason := PStr reason\<rparr>;
                w3 = save_conversation_to_db x 0 w2 s'
            in (w3\<lparr>conversations_cache := (conversations_cache w3)(cid := None)\<rparr>,
                Inr (Some \<lparr>end_conversation_id = cid, end_status = ''completed'',
                           end_qualification_score = qualification_score s,
                           end_lead_quality = lead_quality s,
                           end_lead_created = create, end_lead_id = lid,
                           end_messages_count = length (messages s),
                           end_summary = summary\<rparr>))))"
  using assms unfolding end_conversation_def Let_def
  by (auto split: prod.splits sum.splits simp: fun_upd_idem)

lemma end_conversation_leads:
  assumes "get_conversation x w cid = (w1, Some s)"
  shows "db_leads (fst (end_conversation x w cid reason)) =
     (if \<not> truthy (lead_id s) \<and> 50 \<le> qualification_score s
      then db_leads (fst (create_lead x w1 s)) else db_leads w1)"
  unfolding end_conversation_found [OF assms(1)] Let_def
  by (simp split: sum.splits)

section \<open>Claims about the creation of leads\<close>

lemma get_conversation_ex_world:
  "get_conversation ex_ext (ex_world s) (conversation_id s) =
     ((ex_world s)\<lparr>conversations_cache := [conversation_id s \<mapsto> s]\<rparr>, Some s)"
  by (simp add: get_conversation_def ex_world_def ex_ext_def)

lemma ex_qualified_facts:
  "conversation_id ex_qualified = ''c1''" "lead_id ex_qualified = PNone"
  "qualification_score ex_qualified = 60"
  "dict_get (contact_info ex_qualified) ''phone'' = PNone"
  "dict_get (contact_info ex_qualified) ''name'' = PNone"
  "lead_data ex_qualified =
     Some [(''name'', PStr ''Prospect''), (''phone'', PNone), (''email'', PNone),
           (''preferred_cities'', PList [''Rabat'']), (''preferred_types'', PList [''villa'']),
           (''budget_min'', PNone), (''budget_max'', PInt 2000000),
           (''qualification_score'', PInt 60), (''source'', PStr ''chatbot''),
           (''status'', PStr ''nouveau'')]"
  by (simp_all add: ex_qualified_def ex_fresh_def dict_get_def lead_data_def dict_item_def
        py_or_def)

lemma generate_summary_ex_qualified:
  "generate_summary ex_ext ex_qualified =
     Inr (''Prospect recherche villa '' @ [CHR 0xE0] @ '' Rabat budget max a MAD (Score: v/100)'')"
  by (simp add: generate_summary_def ex_ext_def ex_qualified_def ex_fresh_def dict_get_def
        join_text_def format_amount_def py_str_def)



text \<open>
  Claim C1, as stated, fails in its second half: \<open>end_conversation\<close> does not look at
  the phone.  A conversation with score 60 and neither phone nor name gets a lead.
\<close>

theorem end_conversation_creates_lead_without_phone:
  "dict_get (contact_info ex_qualified) ''phone'' = PNone
   \<and> db_leads (fst (end_conversation ex_ext (ex_world ex_qualified) ''c1'' ''completed''))
       = [[(''name'', PStr ''Prospect''), (''phone'', PNone), (''email'', PNone),
           (''preferred_cities'', PList [''Rabat'']), (''preferred_types'', PList [''villa'']),
           (''budget_min'', PNone), (''budget_max'', PInt 2000000),
           (''qualification_score'', PInt 60), (''source'', PStr ''chatbot''),
           (''status'', PStr ''nouveau'')]]"
  using end_conversation_leads
          [of ex_ext "ex_world ex_qualified" "''c1''" _ ex_qualified "''completed''"]
        get_conversation_ex_world [of ex_qualified]
  by (simp add: ex_qualified_facts leads_create_lead) (simp add: ex_ext_def ex_world_def)

text \<open>
  Claim C1, amended.  On a per-turn message \<^verbatim>\<open>should_create_lead\<close> is true exactly when
  the score is at least 50 and the contact name is true and the contact phone is
  true.  \<open>end_conversation\<close>, on a conversation that it finds, tests no contact field:
  when the conversation has no lead yet and its score is at least 50, it hands the row
  of the lead to the store, so that the row is inserted exactly when the contact record
  has its three keys (whatever their values, \<^verbatim>\<open>None\<close> included) and the store does
  not raise, and otherwise it inserts nothing; a result that it returns reports
  \<^verbatim>\<open>lead_created\<close> exactly when the conversation had no lead and a score of at least
  50.
\<close>

theorem lead_creation_gates:
  "(process_message x st m = (st', Inr (r, sr)) \<longrightarrow>
      (truthy (res_should_create_lead r) \<longleftrightarrow>
         50 \<le> res_qualification_score r
         \<and> truthy (dict_get (contact_info st') ''name'')
         \<and> truthy (dict_get (contact_info st') ''phone'')))
   \<and> (get_conversation x w cid = (w1, Some s) \<longrightarrow>
      db_leads (fst (end_conversation x w cid reason)) =
        db_leads w1
        @ (if \<not> truthy (lead_id s) \<and> 50 \<le> qualification_score s
           then (case lead_data s of
                   None \<Rightarrow> []
                 | Some row \<Rightarrow> if insert_lead x row = Insert_raises then [] else [row])
           else [])
      \<and> (lead_data s \<noteq> None \<longleftrightarrow>
           dict_item (contact_info s) ''name'' \<noteq> None
           \<and> dict_item (contact_info s) ''phone'' \<noteq> None
           \<and> dict_item (contact_info s) ''email'' \<noteq> None)
      \<and> (case snd (end_conversation x w cid reason) of
            Inr (Some res) \<Rightarrow>
              end_lead_created res = (\<not> truthy (lead_id s) \<and> 50 \<le> qualification_score s)
          | Inr None \<Rightarrow> False
          | Inl e \<Rightarrow> generate_summary x s = Inl e))"
proof (intro conjI impI)
  assume "process_message x st m = (st', Inr (r, sr))"
  from process_message_Inr(1) [OF this]
  show "truthy (res_should_create_lead r) \<longleftrightarrow>
         50 \<le> res_qualification_score r
         \<and> truthy (dict_get (contact_info st') ''name'')
         \<and> truthy (dict_get (contact_info st') ''phone'')"
    by (simp add: truthy_py_and)
next
  assume a: "get_conversation x w cid = (w1, Some s)"
  show "db_leads (fst (end_conversation x w cid reason)) =
        db_leads w1
        @ (if \<not> truthy (lead_id s) \<and> 50 \<le> qualification_score s
           then (case lead_data s of
                   None \<Rightarrow> []
                 | Some row \<Rightarrow> if insert_lead x row = Insert_raises then [] else [row])
           else [])"
    by (simp add: end_conversation_leads [OF a] leads_create_lead)
  show "lead_data s \<noteq> None \<longleftrightarrow>
           dict_item (contact_info s) ''name'' \<noteq> None
           \<and> dict_item (contact_info s) ''phone'' \<noteq> None
           \<and> dict_item (contact_info s) ''email'' \<noteq> None"
    by (rule lead_data_keys)
  show "case snd (end_conversation x w cid reason) of
            Inr (Some res) \<Rightarrow>
              end_lead_created res = (\<not> truthy (lead_id s) \<and> 50 \<le> qualification_score s)
          | Inr None \<Rightarrow> False
          | Inl e \<Rightarrow> generate_summary x s = Inl e"
    by (simp add: end_conversation_found [OF a] Let_def split: sum.splits)
qed



section \<open>Concrete turns\<close>

lemma extract_criteria_acheter:
  "extract_criteria ''user: acheter'' = Inr [(''transaction_type'', PStr ''vente'')]"
  by code_simp

lemma extract_contact_info_acheter:
  "extract_contact_info ''user: acheter'' =
     [(''name'', PNone), (''phone'', PNone), (''email'', PNone)]"
  by code_simp

lemma extract_criteria_au_revoir: "extract_criteria ''user: au revoir'' = Inr []"
  by code_simp

lemma extract_contact_info_au_revoir:
  "extract_contact_info ''user: au revoir'' =
     [(''name'', PNone), (''phone'', PNone), (''email'', PNone)]"
  by code_simp

lemma extract_criteria_ali:
  "extract_criteria ''user: je suis Ali 0612345678'' = Inr [(''budget_max'', PInt 61234567)]"
  by code_simp

lemma extract_contact_info_ali:
  "extract_contact_info ''user: je suis Ali 0612345678'' =
     [(''name'', PStr ''Ali''), (''phone'', PStr ''0''), (''email'', PNone)]"
  by code_simp

text \<open>
  The first message \<^verbatim>\<open>acheter\<close> of a conversation, whatever its status and the
  end that is recorded in it.
\<close>

lemma process_message_acheter:
  "process_message ex_ext (ex_fresh\<lparr>status := any, ended_at := ea, end_reason := er\<rparr>)
       ''acheter'' =
    (ex_fresh\<lparr>status := any, ended_at := ea, end_reason := er,
       messages := [\<lparr>role = ''user'', content = ''acheter'', timestamp = ''t1''\<rparr>,
                    \<lparr>role = ''assistant'', content = ''ok'', timestamp = ''t2''\<rparr>],
       criteria := [(''transaction_type'', PStr ''vente'')],
       qualification_score := 10\<rparr>,
     Inr (\<lparr>res_response = ''ok'', res_qualification_score = 10, res_lead_quality = ''cold'',
           res_should_create_lead = PBool False, res_conversation_complete = False,
           res_properties_shown = False, res_matched_properties_count = 0,
           res_criteria_extracted =
             [(''budget'', False), (''location'', False), (''property_type'', False),
              (''contact'', False)]\<rparr>, True))"
  by (simp add: process_message_def transcript_def ex_fresh_def ex_ext_def Let_def
        extract_criteria_acheter extract_contact_info_acheter calculate_score_pts
        turn_points_def pts_def dict_get_def determine_lead_quality_def py_and_def py_or_def)

text \<open>The first message \<^verbatim>\<open>au revoir\<close> of a conversation.\<close>

lemma process_message_au_revoir:
  "process_message ex_ext ex_fresh ''au revoir'' =
    (ex_fresh\<lparr>
       messages := [\<lparr>role = ''user'', content = ''au revoir'', timestamp = ''t1''\<rparr>,
                    \<lparr>role = ''assistant'', content = ''ok'', timestamp = ''t2''\<rparr>]\<rparr>,
     Inr (\<lparr>res_response = ''ok'', res_qualification_score = 0, res_lead_quality = ''cold'',
           res_should_create_lead = PBool False, res_conversation_complete = False,
           res_properties_shown = False, res_matched_properties_count = 0,
           res_criteria_extracted =
             [(''budget'', False), (''location'', False), (''property_type'', False),
              (''contact'', False)]\<rparr>, False))"
  by (simp add: process_message_def transcript_def ex_fresh_def ex_ext_def Let_def
        extract_criteria_au_revoir extract_contact_info_au_revoir calculate_score_pts
        turn_points_def pts_def dict_get_def determine_lead_quality_def py_and_def py_or_def)

text \<open>
  A name and a telephone number given to the conversation that has a city, a type and
  a budget.  The number is read as a budget as well, and the first phone pattern keeps
  its group, the leading zero.
\<close>

lemma process_message_ali:
  "process_message ex_ext ex_qualified ''je suis Ali 0612345678'' =
    (ex_qualified\<lparr>
       messages := [\<lparr>role = ''user'', content = ''je suis Ali 0612345678'', timestamp = ''t1''\<rparr>,
                    \<lparr>role = ''assistant'', content = ''ok'', timestamp = ''t2''\<rparr>],
       criteria := [(''preferred_cities'', PList [''Rabat'']),
                    (''preferred_types'', PList [''villa'']),
                    (''budget_max'', PInt 61234567)],
       contact_info := [(''name'', PStr ''Ali''), (''phone'', PStr ''0''), (''email'', PNone)],
       qualification_score := 75, lead_quality := ''hot''\<rparr>,
     Inr (\<lparr>res_response = ''ok'', res_qualification_score = 75, res_lead_quality = ''hot'',
           res_should_create_lead = PStr ''0'', res_conversation_complete = True,
           res_properties_shown = False, res_matched_properties_count = 0,
           res_criteria_extracted =
             [(''budget'', True), (''location'', True), (''property_type'', True),
              (''contact'', True)]\<rparr>, True))"
  by (simp add: process_message_def transcript_def ex_qualified_def ex_fresh_def ex_ext_def
        Let_def extract_criteria_ali extract_contact_info_ali calculate_score_pts
        turn_points_def pts_def dict_get_def determine_lead_quality_def py_and_def py_or_def)

section \<open>The claims on concrete conversations\<close>

lemma ex_fresh_active:
  "ex_fresh\<lparr>status := ''active'', ended_at := PNone, end_reason := PNone\<rparr> = ex_fresh"
  by (simp add: ex_fresh_def)

lemma get_conversation_ex_qualified:
  "get_conversation ex_ext (ex_world ex_qualified) ''c1''
     = ((ex_world ex_qualified)\<lparr>conversations_cache := [''c1'' \<mapsto> ex_qualified]\<rparr>,
        Some ex_qualified)"
  using get_conversation_ex_world [of ex_qualified] by (simp add: ex_qualified_facts)

text \<open>
  The gates of C1 at work.  The turn that gives a name and a telephone number to the
  conversation of score 60 scores 75 and asks for a lead; ending the conversation of
  score 60 with neither name nor phone inserts its lead and reports it.
\<close>

theorem lead_creation_gates_witness:
  "(\<exists>st' r sr. process_message ex_ext ex_qualified ''je suis Ali 0612345678''
                   = (st', Inr (r, sr))
       \<and> res_qualification_score r = 75
       \<and> dict_get (contact_info st') ''name'' = PStr ''Ali''
       \<and> dict_get (contact_info st') ''phone'' = PStr ''0''
       \<and> truthy (res_should_create_lead r))
   \<and> get_conversation ex_ext (ex_world ex_qualified) ''c1''
       = ((ex_world ex_qualified)\<lparr>conversations_cache := [''c1'' \<mapsto> ex_qualified]\<rparr>,
          Some ex_qualified)
   \<and> \<not> truthy (lead_id ex_qualified) \<and> 50 \<le> qualification_score ex_qualified
   \<and> dict_item (contact_info ex_qualified) ''phone'' = Some PNone
   \<and> db_leads (fst (end_conversation ex_ext (ex_world ex_qualified) ''c1'' ''completed''))
       = [[(''name'', PStr ''Prospect''), (''phone'', PNone), (''email'', PNone),
           (''preferred_cities'', PList [''Rabat'']), (''preferred_types'', PList [''villa'']),
           (''budget_min'', PNone), (''budget_max'', PInt 2000000),
           (''qualification_score'', PInt 60), (''source'', PStr ''chatbot''),
           (''status'', PStr ''nouveau'')]]
   \<and> (case snd (end_conversation ex_ext (ex_world ex_qualified) ''c1'' ''completed'') of
         Inr (Some res) \<Rightarrow> end_lead_created res
       | Inr None \<Rightarrow> False
       | Inl e \<Rightarrow> False)"
proof -
  obtain st' r sr where
    pm: "process_message ex_ext ex_qualified ''je suis Ali 0612345678'' = (st', Inr (r, sr))"
    and sc: "res_qualification_score r = 75"
    and nm: "dict_get (contact_info st') ''name'' = PStr ''Ali''"
    and ph: "dict_get (contact_info st') ''phone'' = PStr ''0''"
    using process_message_ali by (simp add: dict_get_def)
  note gc = get_conversation_ex_qualified
  have pre: "\<not> truthy (lead_id ex_qualified)" "50 \<le> qualification_score ex_qualified"
    "dict_item (contact_info ex_qualified) ''phone'' = Some PNone"
    by (simp_all add: ex_qualified_facts) (simp add: ex_qualified_def ex_fresh_def dict_item_def)
  have ins: "insert_lead ex_ext row = Inserted (PStr ''lead-1'')" for row
    by (simp add: ex_ext_def)
  have nil: "db_leads ((ex_world ex_qualified)
                \<lparr>conversations_cache := [''c1'' \<mapsto> ex_qualified]\<rparr>) = []"
    by (simp add: ex_world_def)
  note g = lead_creation_gates [of ex_ext ex_qualified "''je suis Ali 0612345678''" st' r sr
             "ex_world ex_qualified" "''c1''" _ ex_qualified "''completed''"]
  from g pm sc nm ph have a: "truthy (res_should_create_lead r)" by simp
  from g gc pre have
    b: "db_leads (fst (end_conversation ex_ext (ex_world ex_qualified) ''c1'' ''completed''))
       = [[(''name'', PStr ''Prospect''), (''phone'', PNone), (''email'', PNone),
           (''preferred_cities'', PList [''Rabat'']), (''preferred_types'', PList [''villa'']),
           (''budget_min'', PNone), (''budget_max'', PInt 2000000),
           (''qualification_score'', PInt 60), (''source'', PStr ''chatbot''),
           (''status'', PStr ''nouveau'')]]"
    by (simp add: ins nil ex_qualified_facts)
  from g gc have
    c0: "(case snd (end_conversation ex_ext (ex_world ex_qualified) ''c1'' ''completed'') of
         Inr (Some res) \<Rightarrow>
           end_lead_created res
             = (\<not> truthy (lead_id ex_qualified) \<and> 50 \<le> qualification_score ex_qualified)
       | Inr None \<Rightarrow> False
       | Inl e \<Rightarrow> generate_summary ex_ext ex_qualified = Inl e)"
    by blast
  have
    c: "(case snd (end_conversation ex_ext (ex_world ex_qualified) ''c1'' ''completed'') of
         Inr (Some res) \<Rightarrow> end_lead_created res
       | Inr None \<Rightarrow> False
       | Inl e \<Rightarrow> False)"
  proof (cases "snd (end_conversation ex_ext (ex_world ex_qualified) ''c1'' ''completed'')")
    case (Inl e)
    with c0 show ?thesis by (simp add: generate_summary_ex_qualified)
  next
    case (Inr opt_res)
    with c0 pre show ?thesis by (cases opt_res) simp_all
  qed
  from pm sc nm ph a have
    "\<exists>st' r sr. process_message ex_ext ex_qualified ''je suis Ali 0612345678''
                   = (st', Inr (r, sr))
       \<and> res_qualification_score r = 75
       \<and> dict_get (contact_info st') ''name'' = PStr ''Ali''
       \<and> dict_get (contact_info st') ''phone'' = PStr ''0''
       \<and> truthy (res_should_create_lead r)"
    by blast
  with gc pre b c show ?thesis by blast
qed


end
